theory Spec2Isabelle
  imports Main "HOL-Library.Multiset"
begin

section \<open>Python values, exceptions and effects\<close>

text \<open>
  The exceptions that the modelled code can raise. A function that may raise returns
  \<open>pyerr + 'a\<close>; a method that mutates its object before raising returns the object
  together with \<open>pyerr option\<close>, so that the state left behind by the exception is
  visible.
\<close>

datatype pyerr =
  TypeError | KeyError | IndexError | NameError | OSError | BrokenPipeError
  | UnicodeDecodeError | TimeoutExpired

text \<open>
  The decoded output of \<^verbatim>\<open>notmuch show --format=json\<close>: a JSON value is a list, a
  dictionary or a scalar. A dictionary is read by the code only through the keys
  \<^verbatim>\<open>id\<close>, \<^verbatim>\<open>timestamp\<close>, \<^verbatim>\<open>headers\<close> and \<^verbatim>\<open>tags\<close>; each of them may be absent
  (the code tests \<^verbatim>\<open>'tags' in m\<close>), which is \<open>None\<close>. The values under these keys
  have the types of the indexer's schema (an integer timestamp, a list of tag
  strings, a mapping of header names to strings). \<open>other_keys\<close> lists the remaining
  keys of the dictionary, which matter only for its truth value. JSON numbers are
  integers here; every scalar behaves alike in the modelled code.
\<close>

datatype atom = ANull | ABool bool | ANum int | AStr string

record message =
  msg_id :: "string option"
  timestamp :: "int option"
  headers :: "(string \<times> string) list option"
  tags :: "string list option"
  other_keys :: "string list"

datatype node = Msg message | Seq "node list" | Atom atom

text \<open>\<^verbatim>\<open>if m:\<close> on a dictionary: true unless the dictionary has no key at all.\<close>

definition truthy :: "message \<Rightarrow> bool" where
  "truthy m \<longleftrightarrow>
     msg_id m \<noteq> None \<or> timestamp m \<noteq> None \<or> headers m \<noteq> None \<or> tags m \<noteq> None
     \<or> other_keys m \<noteq> []"

text \<open>
  The outside world as far as the panels change it: the argument vectors of the
  indexer commands that change the index (\<^verbatim>\<open>notmuch tag\<close>, \<^verbatim>\<open>notmuch new\<close>) given
  to \<^verbatim>\<open>subprocess.run\<close>, in order, and the number of calls of
  \<^verbatim>\<open>app.invalidate_panels()\<close>, a method of the application object that these
  files do not define.
\<close>

record world =
  runs :: "string list list"
  invalidations :: nat

section \<open>thread.py: flattening a thread\<close>

text \<open>
  \<^verbatim>\<open>
  def flat_thread(d):
      thread = []
      def dfs(x):
          if isinstance(x, list):
              for y in x:
                  dfs(y)
          else: thread.append(x)
      dfs(d)
      thread.sort(key=lambda m: m['timestamp'])
      return thread
  \<close>
  \<open>dfs\<close> threads the list it appends to; \<open>dfs_for\<close> is its \<^verbatim>\<open>for\<close> loop. The
  interpreter's bound on the depth of recursion is not modelled.
\<close>

fun dfs :: "node \<Rightarrow> node list \<Rightarrow> node list"
  and dfs_for :: "node list \<Rightarrow> node list \<Rightarrow> node list" where
  "dfs (Seq ys) acc = dfs_for ys acc"
| "dfs (Msg m) acc = acc @ [Msg m]"
| "dfs (Atom a) acc = acc @ [Atom a]"
| "dfs_for [] acc = acc"
| "dfs_for (y # ys) acc = dfs_for ys (dfs y acc)"

text \<open>
  The sort key \<^verbatim>\<open>m['timestamp']\<close>: subscripting a scalar with a string raises
  TypeError (so does subscripting a list), a dictionary without the key raises
  KeyError. The key is returned with the dictionary it belongs to.
\<close>

fun timestamp_key :: "node \<Rightarrow> pyerr + (int \<times> message)" where
  "timestamp_key (Msg m) = (case timestamp m of None \<Rightarrow> Inl KeyError | Some t \<Rightarrow> Inr (t, m))"
| "timestamp_key (Seq ys) = Inl TypeError"
| "timestamp_key (Atom a) = Inl TypeError"

text \<open>
  \<^verbatim>\<open>list.sort(key=...)\<close> first computes the key of every element, left to right,
  and the first exception ends the sort; then it sorts the elements by their keys,
  keeping elements with equal keys in their order (the sort is stable). Integer keys
  are always comparable. Every element that has a key is a dictionary, so the sorted
  list is a list of message records.
\<close>

fun keyed :: "node list \<Rightarrow> pyerr + (int \<times> message) list" where
  "keyed [] = Inr []"
| "keyed (x # xs) =
     (case timestamp_key x of
        Inl e \<Rightarrow> Inl e
      | Inr k \<Rightarrow> (case keyed xs of Inl e \<Rightarrow> Inl e | Inr ks \<Rightarrow> Inr (k # ks)))"

definition flat_thread :: "node \<Rightarrow> pyerr + message list" where
  "flat_thread d =
     (case keyed (dfs d []) of
        Inl e \<Rightarrow> Inl e
      | Inr ks \<Rightarrow> Inr (map snd (sort_key fst ks)))"

subsection \<open>What the specification says about flattening\<close>

text \<open>
  The leaves of a thread tree, depth first and left to right, and their number. A
  leaf is a message record when it is a dictionary with a timestamp.
\<close>

fun leaves :: "node \<Rightarrow> node list" where
  "leaves (Seq ys) = concat (map leaves ys)"
| "leaves (Msg m) = [Msg m]"
| "leaves (Atom a) = [Atom a]"

fun leaf_count :: "node \<Rightarrow> nat" where
  "leaf_count (Seq ys) = sum_list (map leaf_count ys)"
| "leaf_count (Msg m) = 1"
| "leaf_count (Atom a) = 1"

fun ts_of :: "node \<Rightarrow> int option" where
  "ts_of (Msg m) = timestamp m"
| "ts_of (Seq ys) = None"
| "ts_of (Atom a) = None"

definition is_message_leaf :: "node \<Rightarrow> bool" where
  "is_message_leaf x \<longleftrightarrow> ts_of x \<noteq> None"

section \<open>thread.py: ThreadModel\<close>

text \<open>
  \<open>model_d\<close> is \<^verbatim>\<open>self.d\<close>, \<open>model_thread\<close> is \<^verbatim>\<open>self.thread\<close>. The decoded output
  of the indexer is an argument of \<open>refresh\<close>.
\<close>

record thread_model =
  model_thread_id :: string
  model_d :: node
  model_thread :: "message list"

text \<open>
  \<^verbatim>\<open>
  def refresh(self):
      r = subprocess.run(['notmuch', 'show', ...], ...)
      self.json_str = r.stdout
      self.d = json.loads(self.json_str)
      self.beginResetModel()
      self.thread = flat_thread(self.d)
      self.endResetModel()
  \<close>
  An exception of \<open>flat_thread\<close> leaves \<^verbatim>\<open>self.thread\<close> as it was.
\<close>

definition thread_model_refresh :: "node \<Rightarrow> thread_model \<Rightarrow> thread_model \<times> pyerr option" where
  "thread_model_refresh new_d tm =
     (let tm1 = tm\<lparr>model_d := new_d\<rparr> in
      case flat_thread new_d of
        Inl e \<Rightarrow> (tm1, Some e)
      | Inr ms \<Rightarrow> (tm1\<lparr>model_thread := ms\<rparr>, None))"

text \<open>
  The constructor calls \<open>refresh\<close>; when that raises there is no model object, and
  the panel that was constructing it does not exist either.
\<close>

definition thread_model_init :: "string \<Rightarrow> node \<Rightarrow> pyerr + thread_model" where
  "thread_model_init tid new_d =
     (case flat_thread new_d of
        Inl e \<Rightarrow> Inl e
      | Inr ms \<Rightarrow> Inr \<lparr>model_thread_id = tid, model_d = new_d, model_thread = ms\<rparr>)"

definition num_messages :: "thread_model \<Rightarrow> int" where
  "num_messages tm = int (length (model_thread tm))"

text \<open>
  \<^verbatim>\<open>return self.thread[i]\<close>: a negative index counts from the end, an index out of range
  raises IndexError.
\<close>

definition message_at :: "thread_model \<Rightarrow> int \<Rightarrow> pyerr + message" where
  "message_at tm i =
     (if 0 \<le> i \<and> i < num_messages tm then Inr (model_thread tm ! nat i)
      else if - num_messages tm \<le> i \<and> i < 0 then Inr (model_thread tm ! nat (num_messages tm + i))
      else Inl IndexError)"

text \<open>\<^verbatim>\<open>'tags' in m and 'unread' in m['tags']\<close>\<close>

definition is_unread :: "message \<Rightarrow> bool" where
  "is_unread m = (case tags m of None \<Rightarrow> False | Some ts \<Rightarrow> ''unread'' \<in> set ts)"

text \<open>
  \<^verbatim>\<open>
  def default_message(self):
      for i, m in enumerate(self.thread):
          if 'tags' in m and 'unread' in m['tags']:
              return i
      return self.num_messages() - 1
  \<close>
\<close>

fun first_unread :: "nat \<Rightarrow> message list \<Rightarrow> nat option" where
  "first_unread i [] = None"
| "first_unread i (m # ms) = (if is_unread m then Some i else first_unread (Suc i) ms)"

definition default_message :: "thread_model \<Rightarrow> int" where
  "default_message tm =
     (case first_unread 0 (model_thread tm) of
        Some i \<Rightarrow> int i
      | None \<Rightarrow> num_messages tm - 1)"

section \<open>thread.py: ThreadPanel\<close>

record thread_panel =
  panel_model :: thread_model
  current_message :: int
  subject :: string

definition subject_of :: "message \<Rightarrow> string" where
  "subject_of m =
     (case headers m of
        None \<Rightarrow> ''(no subject)''
      | Some hs \<Rightarrow> (case map_of hs ''Subject'' of None \<Rightarrow> ''(no subject)'' | Some s \<Rightarrow> s))"

text \<open>
  \<^verbatim>\<open>
  def refresh(self):
      self.model.refresh()
      ix = self.thread_list.model().index(self.current_message, 0)
      if self.thread_list.model().checkIndex(ix):
          self.thread_list.setCurrentIndex(ix)
      m = self.model.message_at(self.current_message)
      if 'headers' in m and 'Subject' in m['headers']:
          self.subject = m['headers']['Subject']
      else:
          self.subject = '(no subject)'
      ...
  \<close>
  The two lines on \<open>ix\<close> move the highlight of the list widget and assign no field of
  the panel; the rest of the method builds the header table of \<open>m\<close> and calls
  \<^verbatim>\<open>Panel.refresh\<close>, which these files do not define. Neither is modelled.
  \<^verbatim>\<open>self.current_message\<close> is not assigned anywhere in the method.
\<close>

definition thread_panel_refresh :: "node \<Rightarrow> thread_panel \<Rightarrow> thread_panel \<times> pyerr option" where
  "thread_panel_refresh new_d p =
     (case thread_model_refresh new_d (panel_model p) of
        (tm, Some e) \<Rightarrow> (p\<lparr>panel_model := tm\<rparr>, Some e)
      | (tm, None) \<Rightarrow>
          (let p1 = p\<lparr>panel_model := tm\<rparr> in
           case message_at tm (current_message p1) of
             Inl e \<Rightarrow> (p1, Some e)
           | Inr m \<Rightarrow> (p1\<lparr>subject := subject_of m\<rparr>, None)))"

section \<open>Tag expressions\<close>

text \<open>
  Strings are lists of 8-bit characters, read as the code points below 256.
  \<^verbatim>\<open>str.split()\<close> without a separator cuts at every run of white space and returns
  the pieces between the runs, none of them empty.
\<close>

definition py_isspace :: "char \<Rightarrow> bool" where
  "py_isspace c \<longleftrightarrow> (of_char c :: nat) \<in> set [9, 10, 11, 12, 13, 28, 29, 30, 31, 32, 133, 160]"

fun split_ws :: "string \<Rightarrow> string \<Rightarrow> string list" where
  "split_ws [] cur = (if cur = [] then [] else [cur])"
| "split_ws (c # cs) cur =
     (if py_isspace c then (if cur = [] then split_ws cs [] else cur # split_ws cs [])
      else split_ws cs (cur @ [c]))"

definition py_split :: "string \<Rightarrow> string list" where
  "py_split s = split_ws s []"

text \<open>
  The statement shared by \<^verbatim>\<open>ThreadPanel.tag_message\<close> and \<^verbatim>\<open>SearchPanel.tag_thread\<close>:
  \<^verbatim>\<open>
  if not ('+' in tag_expr or '-' in tag_expr):
      tag_expr = '+' + tag_expr
  \<close>
  and the one shared by \<^verbatim>\<open>toggle_message_tag\<close> and \<^verbatim>\<open>toggle_thread_tag\<close>:
  \<^verbatim>\<open>
  if tag in m['tags']:
      tag_expr = '-' + tag
  else:
      tag_expr = '+' + tag
  \<close>
\<close>

definition add_sign :: "string \<Rightarrow> string" where
  "add_sign tag_expr =
     (if \<not> (CHR ''+'' \<in> set tag_expr \<or> CHR ''-'' \<in> set tag_expr) then ''+'' @ tag_expr
      else tag_expr)"

definition toggle_expr :: "string \<Rightarrow> string list \<Rightarrow> string" where
  "toggle_expr tag ts = (if tag \<in> set ts then ''-'' @ tag else ''+'' @ tag)"

definition run_cmd :: "string list \<Rightarrow> 'a world_scheme \<Rightarrow> 'a world_scheme" where
  "run_cmd argv w = w\<lparr>runs := runs w @ [argv]\<rparr>"

definition invalidate_panels :: "'a world_scheme \<Rightarrow> 'a world_scheme" where
  "invalidate_panels w = w\<lparr>invalidations := Suc (invalidations w)\<rparr>"

subsection \<open>thread.py: tagging the current message\<close>

text \<open>
  \<^verbatim>\<open>
  def tag_message(self, tag_expr):
      m = self.model.message_at(self.current_message)
      if m:
          if not ('+' in tag_expr or '-' in tag_expr):
              tag_expr = '+' + tag_expr
          r = subprocess.run(['notmuch', 'tag'] + tag_expr.split() + ['--', 'id:' + m['id']],
                  stdout=subprocess.PIPE)
          self.app.invalidate_panels()
          self.refresh()
  \<close>
  \<open>runs\<close> records the commands that change the index; the queries
  \<^verbatim>\<open>notmuch show\<close> and \<^verbatim>\<open>notmuch search\<close> of a refresh are represented by their decoded
  output \<open>new_d\<close>.
\<close>

fun tag_message ::
  "node \<Rightarrow> string \<Rightarrow> thread_panel \<times> world \<Rightarrow> (thread_panel \<times> world) \<times> pyerr option" where
  "tag_message new_d tag_expr (p, w) =
     (case message_at (panel_model p) (current_message p) of
        Inl e \<Rightarrow> ((p, w), Some e)
      | Inr m \<Rightarrow>
          if truthy m then
            (let tag_expr1 = add_sign tag_expr in
             case msg_id m of
               None \<Rightarrow> ((p, w), Some KeyError)
             | Some i \<Rightarrow>
                 (let w1 = run_cmd ([''notmuch'', ''tag''] @ py_split tag_expr1 @ [''--'', ''id:'' @ i]) w;
                      w2 = invalidate_panels w1
                  in case thread_panel_refresh new_d p of (p1, x) \<Rightarrow> ((p1, w2), x)))
          else ((p, w), None))"

text \<open>
  \<^verbatim>\<open>
  def toggle_message_tag(self, tag):
      m = self.model.message_at(self.current_message)
      if m:
          if tag in m['tags']:
              tag_expr = '-' + tag
          else:
              tag_expr = '+' + tag
          self.tag_message(tag_expr)
  \<close>
\<close>

fun toggle_message_tag ::
  "node \<Rightarrow> string \<Rightarrow> thread_panel \<times> world \<Rightarrow> (thread_panel \<times> world) \<times> pyerr option" where
  "toggle_message_tag new_d tag (p, w) =
     (case message_at (panel_model p) (current_message p) of
        Inl e \<Rightarrow> ((p, w), Some e)
      | Inr m \<Rightarrow>
          if truthy m then
            (case tags m of
               None \<Rightarrow> ((p, w), Some KeyError)
             | Some ts \<Rightarrow> tag_message new_d (toggle_expr tag ts) (p, w))
          else ((p, w), None))"

section \<open>search.py: SearchPanel\<close>

text \<open>
  A row of the search result is a dictionary read through the keys \<^verbatim>\<open>thread\<close> and
  \<^verbatim>\<open>tags\<close>. \<open>search_d\<close> is \<^verbatim>\<open>self.model.d\<close>; \<open>current_row\<close> is
  \<^verbatim>\<open>self.tree.currentIndex().row()\<close>, which is \<open>-1\<close> for the invalid index.
\<close>

record srow =
  row_thread :: "string option"
  row_tags :: "string list option"
  row_other_keys :: "string list"

definition row_truthy :: "srow \<Rightarrow> bool" where
  "row_truthy r \<longleftrightarrow> row_thread r \<noteq> None \<or> row_tags r \<noteq> None \<or> row_other_keys r \<noteq> []"

record search_panel =
  search_d :: "srow list"
  current_row :: int

definition num_threads :: "search_panel \<Rightarrow> int" where
  "num_threads sp = int (length (search_d sp))"

text \<open>
  \<^verbatim>\<open>
  def thread_json(self, index):
      row = index.row()
      if row >= 0 and row < len(self.d):
          return self.d[row]
      else:
          return None

  def thread_id(self, index):
      thread = self.thread_json(index)
      if thread and 'thread' in thread:
          return thread['thread']
      else:
          return None
  \<close>
\<close>

definition thread_json :: "search_panel \<Rightarrow> int \<Rightarrow> srow option" where
  "thread_json sp row =
     (if row \<ge> 0 \<and> row < int (length (search_d sp)) then Some (search_d sp ! nat row) else None)"

definition thread_id :: "search_panel \<Rightarrow> int \<Rightarrow> string option" where
  "thread_id sp row =
     (case thread_json sp row of
        None \<Rightarrow> None
      | Some t \<Rightarrow> if row_truthy t then row_thread t else None)"

text \<open>
  \<^verbatim>\<open>
  def refresh(self):
      current = self.tree.currentIndex()
      self.model.refresh()
      if current.row() >= self.model.num_threads():
          self.last_thread()
      else:
          self.tree.setCurrentIndex(current)
  \<close>
  \<^verbatim>\<open>last_thread\<close> makes row \<open>rowCount() - 1\<close> current; on an empty model that index is
  the invalid one, whose row is \<open>-1\<close>.
\<close>

definition search_panel_refresh :: "srow list \<Rightarrow> search_panel \<Rightarrow> search_panel" where
  "search_panel_refresh new_rows sp =
     (let current = current_row sp;
          sp1 = sp\<lparr>search_d := new_rows\<rparr>
      in if current \<ge> num_threads sp1 then sp1\<lparr>current_row := num_threads sp1 - 1\<rparr>
         else sp1\<lparr>current_row := current\<rparr>)"

text \<open>
  \<^verbatim>\<open>
  def tag_thread(self, tag_expr):
      thread_id = self.model.thread_id(self.tree.currentIndex())
      if not ('+' in tag_expr or '-' in tag_expr):
          tag_expr = '+' + tag_expr
      if thread_id:
          subprocess.run(['notmuch', 'tag'] + tag_expr.split() + ['--', 'thread:' + thread_id])
          self.app.invalidate_panels()
          self.refresh()

  def toggle_thread_tag(self, tag):
      thread = self.model.thread_json(self.tree.currentIndex())
      if thread:
          if tag in thread['tags']:
              tag_expr = '-' + tag
          else:
              tag_expr = '+' + tag
          self.tag_thread(tag_expr)
  \<close>
  A thread id is true when it is a non-empty string.
\<close>

fun tag_thread ::
  "srow list \<Rightarrow> string \<Rightarrow> search_panel \<times> world \<Rightarrow> search_panel \<times> world" where
  "tag_thread new_rows tag_expr (sp, w) =
     (let tid = thread_id sp (current_row sp);
          tag_expr1 = add_sign tag_expr
      in case tid of
           None \<Rightarrow> (sp, w)
         | Some t \<Rightarrow>
             if t \<noteq> [] then
               (let w1 = run_cmd ([''notmuch'', ''tag''] @ py_split tag_expr1 @ [''--'', ''thread:'' @ t]) w;
                    w2 = invalidate_panels w1
                in (search_panel_refresh new_rows sp, w2))
             else (sp, w))"

fun toggle_thread_tag ::
  "srow list \<Rightarrow> string \<Rightarrow> search_panel \<times> world \<Rightarrow> (search_panel \<times> world) \<times> pyerr option" where
  "toggle_thread_tag new_rows tag (sp, w) =
     (case thread_json sp (current_row sp) of
        None \<Rightarrow> ((sp, w), None)
      | Some t \<Rightarrow>
          if row_truthy t then
            (case row_tags t of
               None \<Rightarrow> ((sp, w), Some KeyError)
             | Some ts \<Rightarrow> (tag_thread new_rows (toggle_expr tag ts) (sp, w), None))
          else ((sp, w), None))"

section \<open>compose.py: the collaborators of a compose session\<close>

text \<open>
  The message handed to the mail-transfer agent, as \<^verbatim>\<open>email.message.EmailMessage\<close>
  holds it: the header fields in order as they stand before the first attachment is
  added, the text content, and the attachment parts in the order of the
  \<^verbatim>\<open>add_attachment\<close> calls (which make the message a multipart container of the
  text and these parts). \<^verbatim>\<open>str(eml)\<close> is represented by the value itself.
\<close>

record attachment_part =
  part_data :: string
  maintype :: string
  subtype :: string
  filename :: string

record eml =
  eml_headers :: "(string \<times> string) list"
  eml_content :: string
  eml_parts :: "attachment_part list"

text \<open>
  What the transfer agent started by
  \<^verbatim>\<open>Popen(settings.send_mail_command, stdin=PIPE, encoding='utf8')\<close> does, as the
  thread meets it:
  \<^item> \<open>LaunchFails\<close>: the command cannot be executed, \<^verbatim>\<open>Popen\<close> raises OSError;
  \<^item> \<open>PipeBreaks rc\<close>: the agent exits with status \<open>rc\<close> before it has read its input,
    and \<^verbatim>\<open>stdin.write\<close> or \<^verbatim>\<open>stdin.close\<close> raises BrokenPipeError;
  \<^item> \<open>WriteBlocks\<close>: the agent neither reads its input nor exits, and \<^verbatim>\<open>stdin.write\<close>
    of a message larger than the pipe's buffer does not return;
  \<^item> \<open>TakesInput x\<close>: the message is written and the input closed; \<open>x\<close> tells whether
    the agent exits, and then after how many seconds, counted from the call of
    \<^verbatim>\<open>wait\<close>, and with which status.
  \<^verbatim>\<open>sendmail.wait(timeout)\<close> returns, and \<^verbatim>\<open>sendmail.returncode\<close> is the exit status,
  when the agent has exited after at most \<open>timeout\<close> seconds; otherwise it raises
  \<^verbatim>\<open>TimeoutExpired\<close>.
\<close>

datatype agent_exit = ExitsAfter nat int | StaysAlive

datatype agent_behaviour = LaunchFails | PipeBreaks int | WriteBlocks | TakesInput agent_exit

definition wait :: "nat \<Rightarrow> agent_exit \<Rightarrow> pyerr + int" where
  "wait timeout x =
     (case x of
        ExitsAfter t rc \<Rightarrow> (if t \<le> timeout then Inr rc else Inl TimeoutExpired)
      | StaysAlive \<Rightarrow> Inl TimeoutExpired)"

text \<open>
  What the thread has done with an agent process when it is through with it: waited
  for it and got its exit status, killed it, or neither.
\<close>

datatype agent_state = Reaped int | Killed | LeftAlone

text \<open>
  The editor either cannot be started (\<^verbatim>\<open>subprocess.run\<close> raises OSError) or exits
  with a status and leaves the temporary file: gone (\<^verbatim>\<open>open\<close> raises OSError), with
  bytes that are no text in the locale's encoding (\<^verbatim>\<open>f.read()\<close> raises
  UnicodeDecodeError), or with a text.
\<close>

datatype temp_file = FileGone | Undecodable | FileText string

datatype editor_outcome = CannotStart | EditorExit int temp_file

text \<open>
  The library calls and external programs of a session:
  \<^item> \<open>parse_headers s\<close> is \<^verbatim>\<open>[(h, m[h]) for h in m]\<close> and \<open>parse_payload s\<close> is
    \<^verbatim>\<open>m.get_payload()\<close> for \<^verbatim>\<open>m = email.message_from_string(s)\<close>;
  \<^item> \<open>set_content hs p\<close> is the header fields and the content of \<^verbatim>\<open>eml\<close> after
    \<^verbatim>\<open>eml.set_content(p)\<close>, when \<open>hs\<close> are its header fields before (the call adds
    the fields that describe the content and encodes the text);
  \<^item> \<open>guess_type att\<close> is \<^verbatim>\<open>mimetypes.guess_type(att)[0]\<close>;
  \<^item> \<open>read_file att\<close> is the content read from \<^verbatim>\<open>open(os.path.expanduser(att), 'rb')\<close>,
    \<open>None\<close> when that raises IOError;
  \<^item> \<open>formatdate\<close> is \<^verbatim>\<open>email.utils.formatdate(localtime=True)\<close>;
  \<^item> \<open>sendmail e\<close> is what the transfer agent does when it is started and given the
    message \<open>e\<close>;
  \<^item> \<open>editor s\<close> is what the editor does with a temporary file that holds \<open>s\<close>.
  The header assignments, \<^verbatim>\<open>add_attachment\<close> and the write to the temporary file are
  taken to succeed.
\<close>

record env =
  parse_headers :: "string \<Rightarrow> (string \<times> string) list"
  parse_payload :: "string \<Rightarrow> string"
  set_content :: "(string \<times> string) list \<Rightarrow> string \<Rightarrow> (string \<times> string) list \<times> string"
  guess_type :: "string \<Rightarrow> string option"
  read_file :: "string \<Rightarrow> string option"
  formatdate :: string
  sendmail :: "eml \<Rightarrow> agent_behaviour"
  editor :: "string \<Rightarrow> editor_outcome"

text \<open>
  What a session changes outside itself, besides \<open>runs\<close> and \<open>invalidations\<close>: the
  sent maildir (each message with its flags), the messages written in full to the
  input of a transfer agent, the agent processes that a thread is through with, the
  lines printed, and the number of \<^verbatim>\<open>SendmailThread\<close>s started.
\<close>

record cworld = world +
  sent_maildir :: "(eml \<times> string) list"
  mta_stdin :: "eml list"
  agents :: "agent_state list"
  printed :: "string list"
  send_threads_started :: nat

text \<open>
  The status line is an HTML fragment around one of the words \<^verbatim>\<open>draft\<close>,
  \<^verbatim>\<open>sending\<close>, \<^verbatim>\<open>sent\<close>, \<^verbatim>\<open>error\<close> and \<^verbatim>\<open>timed out\<close>. A thread attribute
  is \<^verbatim>\<open>None\<close> or a thread object that is running or has finished.
\<close>

datatype status_word = S_draft | S_sending | S_sent | S_error | S_timed_out

datatype thread_handle = NoThread | Started | Finished

record compose =
  message_string :: string
  status :: status_word
  editor_thread :: thread_handle
  sendmail_thread :: thread_handle
  reply_to :: "message option"

text \<open>
  \<^verbatim>\<open>ComposeView.__init__\<close> builds the text of the draft from \<^verbatim>\<open>reply_to\<close> and the
  settings; the text is an argument here. The other fields start as in the source.
\<close>

definition compose_init :: "string \<Rightarrow> message option \<Rightarrow> compose" where
  "compose_init text rt =
     \<lparr>message_string = text, status = S_draft, editor_thread = NoThread,
      sendmail_thread = NoThread, reply_to = rt\<rparr>"

definition cworld_init :: cworld where
  "cworld_init =
     \<lparr>runs = [], invalidations = 0, sent_maildir = [], mta_stdin = [], agents = [],
      printed = [],
      send_threads_started = 0\<rparr>"

section \<open>compose.py: EditorThread\<close>

text \<open>
  Reading a file opened with \<^verbatim>\<open>open(file, 'r')\<close> translates the line endings
  \<^verbatim>\<open>\r\n\<close> and \<^verbatim>\<open>\r\<close> to \<^verbatim>\<open>\n\<close>.
\<close>

fun universal_newlines :: "string \<Rightarrow> string" where
  "universal_newlines [] = []"
| "universal_newlines (c # cs) =
     (if c = CHR 0x0D then
        (case cs of
           [] \<Rightarrow> [CHR 0x0A]
         | c' # cs' \<Rightarrow>
             if c' = CHR 0x0A then CHR 0x0A # universal_newlines cs'
             else CHR 0x0A # universal_newlines cs)
      else c # universal_newlines cs)"

text \<open>
  \<^verbatim>\<open>
  def run(self):
      try:
          fd, file = tempfile.mkstemp('.eml')
          f = os.fdopen(fd, 'w')
          f.write(self.panel.message_string)
          f.close()
          cmd = settings.editor_command + [file]
          subprocess.run(cmd)
          with open(file, 'r') as f:
              self.panel.message_string = f.read()
          os.remove(file)
      finally:
          self.done.emit()
  \<close>
  The exit status of the editor is not looked at. An exception leaves
  \<^verbatim>\<open>message_string\<close> unassigned. An editor that does not exit keeps the thread in
  \<^verbatim>\<open>subprocess.run\<close>.
\<close>

definition editor_run :: "env \<Rightarrow> compose \<Rightarrow> compose \<times> pyerr option" where
  "editor_run ev c =
     (case editor ev (message_string c) of
        CannotStart \<Rightarrow> (c, Some OSError)
      | EditorExit rc FileGone \<Rightarrow> (c, Some OSError)
      | EditorExit rc Undecodable \<Rightarrow> (c, Some UnicodeDecodeError)
      | EditorExit rc (FileText text) \<Rightarrow> (c\<lparr>message_string := universal_newlines text\<rparr>, None))"

text \<open>
  \<^verbatim>\<open>
  def edit_done(self):
      self.editor_thread = None
      self.refresh()

  def edit(self):
      if self.editor_thread is None:
          self.editor_thread = EditorThread(self)
          self.editor_thread.start()
  \<close>
\<close>

definition edit_done :: "compose \<Rightarrow> compose" where
  "edit_done c = c\<lparr>editor_thread := NoThread\<rparr>"

definition edit :: "compose \<Rightarrow> compose" where
  "edit c = (if editor_thread c = NoThread then c\<lparr>editor_thread := Started\<rparr> else c)"

section \<open>compose.py: SendmailThread\<close>

text \<open>
  \<^verbatim>\<open>"Date" in eml\<close> compares header names without regard to case: the names are
  equal when the code points of their lower-case forms are.
\<close>

definition lower_code :: "char \<Rightarrow> nat" where
  "lower_code c =
     (let n = (of_char c :: nat) in
      if (65 \<le> n \<and> n \<le> 90) \<or> (192 \<le> n \<and> n \<le> 222 \<and> n \<noteq> 215) then n + 32 else n)"

definition has_header :: "string \<Rightarrow> (string \<times> string) list \<Rightarrow> bool" where
  "has_header name hs \<longleftrightarrow> list_ex (\<lambda>(k, v). map lower_code k = map lower_code name) hs"

text \<open>\<^verbatim>\<open>mime.split('/')\<close>: the pieces between the separators, empty ones included.\<close>

fun split_on :: "char \<Rightarrow> string \<Rightarrow> string \<Rightarrow> string list" where
  "split_on sep [] cur = [cur]"
| "split_on sep (c # cs) cur =
     (if c = sep then cur # split_on sep cs [] else split_on sep cs (cur @ [c]))"

text \<open>
  \<^verbatim>\<open>
  mime, _ = mimetypes.guess_type(att)
  if mime and len(mime.split('/')) == 2:
      ty = mime.split('/')
  else:
      ty = ['application', 'octet-stream']
  \<close>
\<close>

definition mime_type :: "env \<Rightarrow> string \<Rightarrow> string list" where
  "mime_type ev att =
     (case guess_type ev att of
        None \<Rightarrow> [''application'', ''octet-stream'']
      | Some mime \<Rightarrow>
          if mime \<noteq> [] \<and> length (split_on CHR ''/'' mime []) = 2 then split_on CHR ''/'' mime []
          else [''application'', ''octet-stream''])"

text \<open>\<^verbatim>\<open>os.path.basename\<close>: what follows the last slash.\<close>

definition basename :: "string \<Rightarrow> string" where
  "basename path = last (split_on CHR ''/'' path [])"

text \<open>
  \<^verbatim>\<open>
  for att in attachments:
      ...
      try:
          with open(os.path.expanduser(att), 'rb') as f:
              data = f.read()
              eml.add_attachment(data, maintype=ty[0], subtype=ty[1],
                                 filename=os.path.basename(att))
      except IOError:
          print("Can't read attachment: " + a)
  \<close>
  No variable \<^verbatim>\<open>a\<close> is bound in \<^verbatim>\<open>run\<close> or in the module: evaluating the argument
  of \<^verbatim>\<open>print\<close> raises NameError, before anything is printed, and the handler of
  \<^verbatim>\<open>run\<close> catches \<^verbatim>\<open>TimeoutExpired\<close> only.
\<close>

fun attach_all :: "env \<Rightarrow> string list \<Rightarrow> eml \<Rightarrow> pyerr + eml" where
  "attach_all ev [] e = Inr e"
| "attach_all ev (att # atts) e =
     (let ty = mime_type ev att in
      case read_file ev att of
        None \<Rightarrow> Inl NameError
      | Some data \<Rightarrow>
          attach_all ev atts
            (e\<lparr>eml_parts := eml_parts e @
                 [\<lparr>part_data = data, maintype = ty ! 0, subtype = ty ! 1,
                   filename = basename att\<rparr>]\<rparr>))"

text \<open>
  \<^verbatim>\<open>
  m = email.message_from_string(self.panel.message_string)
  eml = email.message.EmailMessage()
  attachments = []
  for h in m:
      if h == 'A':
          attachments.append(m[h])
      else:
          eml[h] = m[h]
  eml.set_content(m.get_payload())
  if not "Date" in eml:
      eml["Date"] = email.utils.formatdate(localtime=True)
  \<close>
\<close>

definition build_eml :: "env \<Rightarrow> string \<Rightarrow> string list \<times> eml" where
  "build_eml ev text =
     (let hs = parse_headers ev text;
          attachments = map snd (filter (\<lambda>(h, v). h = ''A'') hs);
          kept = filter (\<lambda>(h, v). h \<noteq> ''A'') hs;
          sc = set_content ev kept (parse_payload ev text);
          kept1 = (if \<not> has_header ''Date'' (fst sc) then fst sc @ [(''Date'', formatdate ev)]
                   else fst sc)
      in (attachments, \<lparr>eml_headers = kept1, eml_content = snd sc, eml_parts = []\<rparr>))"

text \<open>
  After a zero exit status:
  \<^verbatim>\<open>
  m = mailbox.MaildirMessage(str(eml))
  m.set_flags('S')
  mailbox.Maildir(settings.sent_dir).add(m)
  if self.panel.reply_to:
      subprocess.run(['notmuch', 'tag', '+replied', '--', 'id:' + self.panel.reply_to['id']])
  subprocess.run(['notmuch', 'new'])
  self.panel.app.invalidate_panels()
  self.panel.status = ... sent ...
  \<close>
\<close>

definition after_accept :: "eml \<Rightarrow> compose \<times> cworld \<Rightarrow> (compose \<times> cworld) \<times> pyerr option" where
  "after_accept e cw =
     (let c = fst cw;
          w1 = (snd cw)\<lparr>sent_maildir := sent_maildir (snd cw) @ [(e, ''S'')]\<rparr>;
          finish = (\<lambda>w. ((c\<lparr>status := S_sent\<rparr>, invalidate_panels (run_cmd [''notmuch'', ''new''] w)), None))
      in case reply_to c of
           None \<Rightarrow> finish w1
         | Some r \<Rightarrow>
             if truthy r then
               (case msg_id r of
                  None \<Rightarrow> ((c, w1), Some KeyError)
                | Some i \<Rightarrow> finish (run_cmd [''notmuch'', ''tag'', ''+replied'', ''--'', ''id:'' @ i] w1))
             else finish w1)"

text \<open>
  \<^verbatim>\<open>
  def run(self):
      try:
          ... build eml, attach ...
          sendmail = Popen(settings.send_mail_command, stdin=PIPE, encoding='utf8')
          sendmail.stdin.write(str(eml))
          sendmail.stdin.close()
          sendmail.wait(30)
          if sendmail.returncode == 0:
              ...
          else:
              self.panel.status = ... error ...
      except TimeoutExpired:
          self.panel.status = ... timed out ...
      finally:
          self.done.emit()
  \<close>
  \<^verbatim>\<open>done\<close> is connected to \<^verbatim>\<open>panel.refresh\<close>, which renders the status and the
  text and assigns no field. Only \<^verbatim>\<open>TimeoutExpired\<close> is caught: the OSError of
  \<^verbatim>\<open>Popen\<close> and the BrokenPipeError of the write leave \<^verbatim>\<open>run\<close> as they are raised.
  After \<^verbatim>\<open>TimeoutExpired\<close> the process is not touched again. The result is \<open>None\<close>
  when \<^verbatim>\<open>run\<close> does not return.
\<close>

definition sendmail_run ::
  "env \<Rightarrow> compose \<times> cworld \<Rightarrow> ((compose \<times> cworld) \<times> pyerr option) option" where
  "sendmail_run ev cw =
     (let c = fst cw; w = snd cw;
          b = build_eml ev (message_string c)
      in case attach_all ev (fst b) (snd b) of
           Inl x \<Rightarrow> Some ((c, w), Some x)
         | Inr e \<Rightarrow>
             (case sendmail ev e of
                LaunchFails \<Rightarrow> Some ((c, w), Some OSError)
              | PipeBreaks rc \<Rightarrow> Some ((c, w\<lparr>agents := agents w @ [LeftAlone]\<rparr>), Some BrokenPipeError)
              | WriteBlocks \<Rightarrow> None
              | TakesInput x \<Rightarrow>
                  (let w1 = w\<lparr>mta_stdin := mta_stdin w @ [e]\<rparr> in
                   case wait 30 x of
                     Inl t \<Rightarrow>
                       Some ((c\<lparr>status := S_timed_out\<rparr>, w1\<lparr>agents := agents w1 @ [LeftAlone]\<rparr>), None)
                   | Inr rc \<Rightarrow>
                       (let w2 = w1\<lparr>agents := agents w1 @ [Reaped rc]\<rparr> in
                        if rc = 0 then Some (after_accept e (c, w2))
                        else Some ((c\<lparr>status := S_error\<rparr>, w2), None)))))"

section \<open>compose.py: ComposeView\<close>

text \<open>
  \<^verbatim>\<open>
  def send(self):
      if self.sendmail_thread is None:
          self.status = ... sending ...
          self.refresh()
          self.sendmail_thread = SendmailThread(self)
          self.sendmail_thread.start()
  \<close>
\<close>

definition send :: "compose \<times> cworld \<Rightarrow> compose \<times> cworld" where
  "send cw =
     (let c = fst cw; w = snd cw in
      if sendmail_thread c = NoThread then
        (c\<lparr>status := S_sending, sendmail_thread := Started\<rparr>,
         w\<lparr>send_threads_started := Suc (send_threads_started w)\<rparr>)
      else (c, w))"

text \<open>
  The life of a session is a sequence of events: the user asks to send or to edit,
  and a started background thread runs to its end. The body of a thread runs only
  when that thread has been started and has not run yet; a send thread whose body
  does not return stays as it is. When the editor thread ends,
  its \<^verbatim>\<open>done\<close> signal calls \<open>edit_done\<close>; the signal of the send thread calls
  \<^verbatim>\<open>refresh\<close>. No method of the source assigns \<^verbatim>\<open>sendmail_thread\<close> except \<open>send\<close>
  and the constructor.
\<close>

datatype event = CallSend | CallEdit | SendmailThreadRuns | EditorThreadRuns

fun step :: "env \<Rightarrow> compose \<times> cworld \<Rightarrow> event \<Rightarrow> compose \<times> cworld" where
  "step ev cw CallSend = send cw"
| "step ev cw CallEdit = (edit (fst cw), snd cw)"
| "step ev cw SendmailThreadRuns =
     (if sendmail_thread (fst cw) = Started then
        (case sendmail_run ev cw of
           None \<Rightarrow> cw
         | Some r \<Rightarrow> ((fst (fst r))\<lparr>sendmail_thread := Finished\<rparr>, snd (fst r)))
      else cw)"
| "step ev cw EditorThreadRuns =
     (if editor_thread (fst cw) = Started then
        (edit_done (fst (editor_run ev (fst cw))), snd cw)
      else cw)"

definition run_events :: "env \<Rightarrow> compose \<times> cworld \<Rightarrow> event list \<Rightarrow> compose \<times> cworld" where
  "run_events ev cw evs = foldl (step ev) cw evs"

section \<open>Example values\<close>

text \<open>
  A thread of four messages in two nested replies, two of them with the same
  timestamp; the same thread after two messages have gone; a tree with a number where
  a message should be; a panel showing the fourth message of the thread.
\<close>

definition mk_message :: "string \<Rightarrow> int \<Rightarrow> string list \<Rightarrow> message" where
  "mk_message i t ts =
     \<lparr>msg_id = Some i, timestamp = Some t,
      headers = Some [(''From'', ''a@x''), (''Subject'', ''hi'')],
      tags = Some ts, other_keys = [''body'']\<rparr>"

definition ex_tree :: node where
  "ex_tree =
     Seq [Seq [Msg (mk_message ''m1'' 30 [''inbox'']),
               Seq [Msg (mk_message ''m2'' 10 [''unread'']), Msg (mk_message ''m3'' 10 [''inbox''])]],
          Msg (mk_message ''m4'' 20 [''unread''])]"

definition ex_short_tree :: node where
  "ex_short_tree = Seq [Msg (mk_message ''m2'' 10 [''unread'']), Seq [Msg (mk_message ''m3'' 10 [''inbox''])]]"

definition ex_bad_tree :: node where
  "ex_bad_tree = Seq [Msg (mk_message ''m1'' 30 [''inbox'']), Seq [Atom (ANum 5)]]"

definition ex_model :: thread_model where
  "ex_model =
     \<lparr>model_thread_id = ''t1'', model_d = ex_tree,
      model_thread = [mk_message ''m2'' 10 [''unread''], mk_message ''m3'' 10 [''inbox''],
                      mk_message ''m4'' 20 [''unread''], mk_message ''m1'' 30 [''inbox'']]\<rparr>"

definition ex_panel :: thread_panel where
  "ex_panel = \<lparr>panel_model = ex_model, current_message = 3, subject = ''hi''\<rparr>"

definition ex_world :: world where
  "ex_world = \<lparr>runs = [], invalidations = 0\<rparr>"

definition ex_search :: search_panel where
  "ex_search =
     \<lparr>search_d = [\<lparr>row_thread = Some ''000a'', row_tags = Some [''inbox'', ''unread''],
                   row_other_keys = [''subject'']\<rparr>],
      current_row = 0\<rparr>"

text \<open>
  A draft with three header fields, and the same draft with an attachment field; an
  environment whose parser returns the given fields, with the given files, transfer
  agent and editor.
\<close>

definition ex_headers :: "(string \<times> string) list" where
  "ex_headers = [(''From'', ''a@x''), (''To'', ''b@x''), (''Subject'', ''hi'')]"

definition ex_env ::
  "(string \<times> string) list \<Rightarrow> (string \<Rightarrow> string option) \<Rightarrow> agent_behaviour \<Rightarrow> editor_outcome \<Rightarrow> env" where
  "ex_env hs files mta ed =
     \<lparr>parse_headers = (\<lambda>s. hs), parse_payload = (\<lambda>s. ''body''),
      set_content = (\<lambda>fields p.
        (fields @ [(''Content-Type'', ''text/plain; charset='' @ [CHR 0x22] @ ''utf-8'' @ [CHR 0x22]),
                   (''Content-Transfer-Encoding'', ''7bit''), (''MIME-Version'', ''1.0'')],
         p @ [CHR 0x0A])),
      guess_type = (\<lambda>path. Some ''text/plain''), read_file = files,
      formatdate = ''Wed, 04 Nov 2026 10:00:00 +0000'',
      sendmail = (\<lambda>e. mta), editor = (\<lambda>s. ed)\<rparr>"

definition ex_eml :: eml where
  "ex_eml =
     \<lparr>eml_headers = ex_headers @
        [(''Content-Type'', ''text/plain; charset='' @ [CHR 0x22] @ ''utf-8'' @ [CHR 0x22]),
         (''Content-Transfer-Encoding'', ''7bit''), (''MIME-Version'', ''1.0''),
         (''Date'', ''Wed, 04 Nov 2026 10:00:00 +0000'')],
      eml_content = ''body'' @ [CHR 0x0A], eml_parts = []\<rparr>"

definition ex_draft :: compose where
  "ex_draft = compose_init ''From: a@x\<newline>To: b@x\<newline>Subject: hi\<newline>\<newline>\<newline>body'' None"


section \<open>Flattening: length, order and stability\<close>

lemma dfs_leaves:
  "dfs x acc = acc @ leaves x"
  "dfs_for ys acc = acc @ concat (map leaves ys)"
  by (induction x acc and ys acc rule: dfs_dfs_for.induct) simp_all

lemma length_leaves: "length (leaves x) = leaf_count x"
proof (induction x rule: leaves.induct)
  case (1 ys)
  then have eq: "map (\<lambda>y. length (leaves y)) ys = map leaf_count ys"
    by simp
  show ?case
    by (simp add: length_concat comp_def eq)
qed simp_all

lemma keyed_messages:
  assumes "list_all is_message_leaf xs"
  shows "\<exists>ks. keyed xs = Inr ks \<and> map (\<lambda>k. Msg (snd k)) ks = xs
           \<and> (\<forall>k \<in> set ks. timestamp (snd k) = Some (fst k))"
  using assms
proof (induction xs)
  case Nil
  then show ?case by simp
next
  case (Cons x xs)
  then obtain ks where ks: "keyed xs = Inr ks" "map (\<lambda>k. Msg (snd k)) ks = xs"
    "\<forall>k \<in> set ks. timestamp (snd k) = Some (fst k)"
    by auto
  from Cons.prems obtain m t where x: "x = Msg m" "timestamp m = Some t"
    by (cases x) (auto simp: is_message_leaf_def)
  show ?case
    using ks x by simp
qed

lemma keyed_malformed:
  assumes "\<not> list_all is_message_leaf xs"
  shows "keyed xs = Inl TypeError \<or> keyed xs = Inl KeyError"
  using assms
proof (induction xs)
  case Nil
  then show ?case by simp
next
  case (Cons x xs)
  show ?case
  proof (cases "is_message_leaf x")
    case True
    then obtain m t where "x = Msg m" "timestamp m = Some t"
      by (cases x) (auto simp: is_message_leaf_def)
    moreover from True Cons.prems have "\<not> list_all is_message_leaf xs"
      by simp
    ultimately show ?thesis
      using Cons.IH by auto
  next
    case False
    then show ?thesis
      by (cases x) (auto simp: is_message_leaf_def)
  qed
qed

lemma filter_keyed:
  assumes "\<forall>k \<in> set ks. timestamp (snd k) = Some (fst k)"
  shows "filter (\<lambda>x. ts_of x = Some t) (map (\<lambda>k. Msg (snd k)) ks)
           = map (\<lambda>k. Msg (snd k)) (filter (\<lambda>k. fst k = t) ks)"
  using assms by (induction ks) auto

text \<open>
  C1. For a thread tree whose leaves are all message records, \<open>flat_thread\<close> returns
  a list with one entry per leaf of the tree. The list is a rearrangement of the
  depth-first, left-to-right sequence of the leaves, its timestamps are
  non-decreasing, and the leaves with any given timestamp appear in it in their
  depth-first order: it is the stable sort of that sequence by timestamp.
\<close>

theorem flat_thread_stable_sorted:
  assumes "list_all is_message_leaf (leaves d)"
  shows "\<exists>ms ts. flat_thread d = Inr ms
           \<and> length ms = leaf_count d
           \<and> mset (map Msg ms) = mset (leaves d)
           \<and> map timestamp ms = map Some ts \<and> sorted ts
           \<and> (\<forall>t. filter (\<lambda>x. ts_of x = Some t) (map Msg ms)
                    = filter (\<lambda>x. ts_of x = Some t) (leaves d))"
proof -
  from keyed_messages [OF assms] obtain ks where
    ks: "keyed (leaves d) = Inr ks" "map (\<lambda>k. Msg (snd k)) ks = leaves d"
    and inv: "\<forall>k \<in> set ks. timestamp (snd k) = Some (fst k)"
    by blast
  define ss where "ss = sort_key fst ks"
  define ms where "ms = map snd ss"
  have flat: "flat_thread d = Inr ms"
    using ks(1) dfs_leaves(1) [of d "[]"] by (simp add: flat_thread_def ms_def ss_def)
  have inv_ss: "\<forall>k \<in> set ss. timestamp (snd k) = Some (fst k)"
    using inv by (simp add: ss_def)
  have "length ms = length (leaves d)"
    using ks(2) by (simp add: ms_def ss_def flip: length_map [of "\<lambda>k. Msg (snd k)" ks])
  then have len: "length ms = leaf_count d"
    by (simp add: length_leaves)
  have "mset (map (\<lambda>k. Msg (snd k)) ss) = mset (map (\<lambda>k. Msg (snd k)) ks)"
    by (simp add: ss_def)
  then have perm: "mset (map Msg ms) = mset (leaves d)"
    using ks(2) by (simp add: ms_def comp_def)
  have times: "map timestamp ms = map Some (map fst ss)"
    using inv_ss by (simp add: ms_def)
  have srt: "sorted (map fst ss)"
    by (simp add: ss_def)
  have stable: "filter (\<lambda>x. ts_of x = Some t) (map Msg ms)
                  = filter (\<lambda>x. ts_of x = Some t) (leaves d)" for t
  proof -
    have "filter (\<lambda>x. ts_of x = Some t) (map Msg ms)
            = filter (\<lambda>x. ts_of x = Some t) (map (\<lambda>k. Msg (snd k)) ss)"
      by (simp add: ms_def comp_def)
    also have "\<dots> = map (\<lambda>k. Msg (snd k)) (filter (\<lambda>k. fst k = t) ss)"
      by (rule filter_keyed [OF inv_ss])
    also have "\<dots> = map (\<lambda>k. Msg (snd k)) (filter (\<lambda>k. fst k = t) ks)"
      by (simp only: ss_def sort_key_stable)
    also have "\<dots> = filter (\<lambda>x. ts_of x = Some t) (map (\<lambda>k. Msg (snd k)) ks)"
      by (rule filter_keyed [OF inv, symmetric])
    finally show ?thesis
      by (simp only: ks(2))
  qed
  from flat len perm times srt stable show ?thesis
    by blast
qed

lemma leaves_ex_tree:
  "leaves ex_tree =
     [Msg (mk_message ''m1'' 30 [''inbox'']), Msg (mk_message ''m2'' 10 [''unread'']),
      Msg (mk_message ''m3'' 10 [''inbox'']), Msg (mk_message ''m4'' 20 [''unread''])]"
  by (simp add: ex_tree_def)

lemma flat_thread_ex_tree:
  "flat_thread ex_tree =
     Inr [mk_message ''m2'' 10 [''unread''], mk_message ''m3'' 10 [''inbox''],
          mk_message ''m4'' 20 [''unread''], mk_message ''m1'' 30 [''inbox'']]"
  by (simp add: flat_thread_def ex_tree_def mk_message_def)

theorem flat_thread_stable_sorted_witness:
  "list_all is_message_leaf (leaves ex_tree)
   \<and> (\<exists>ms ts. flat_thread ex_tree = Inr ms
         \<and> length ms = leaf_count ex_tree
         \<and> mset (map Msg ms) = mset (leaves ex_tree)
         \<and> map timestamp ms = map Some ts \<and> sorted ts
         \<and> (\<forall>t. filter (\<lambda>x. ts_of x = Some t) (map Msg ms)
                  = filter (\<lambda>x. ts_of x = Some t) (leaves ex_tree)))"
proof -
  have h: "list_all is_message_leaf (leaves ex_tree)"
    by (simp add: leaves_ex_tree is_message_leaf_def mk_message_def)
  from h flat_thread_stable_sorted [OF h] show ?thesis
    by (rule conjI)
qed

section \<open>Flattening: malformed nodes\<close>

lemma flat_thread_error:
  assumes "\<not> list_all is_message_leaf (leaves d)"
  shows "flat_thread d = Inl TypeError \<or> flat_thread d = Inl KeyError"
  using keyed_malformed [OF assms] dfs_leaves(1) [of d "[]"]
  by (auto simp: flat_thread_def)

text \<open>
  C6. When some leaf of the input is not a message record (a scalar where a message
  or a list should be, or a dictionary without a timestamp), \<open>flat_thread\<close> raises
  and returns no list at all. The exception is Python's TypeError or KeyError, raised
  by the sort key. It passes through \<open>ThreadModel\<close>: the constructor yields no model,
  and \<open>refresh\<close> ends with the exception and leaves the list of messages it had, so
  nothing of the malformed tree is shown.
\<close>

theorem flat_thread_malformed_raises:
  assumes "\<not> list_all is_message_leaf (leaves d)"
  shows "\<exists>e. (e = TypeError \<or> e = KeyError)
           \<and> flat_thread d = Inl e
           \<and> thread_model_init tid d = Inl e
           \<and> thread_model_refresh d tm = (tm\<lparr>model_d := d\<rparr>, Some e)
           \<and> model_thread (fst (thread_model_refresh d tm)) = model_thread tm"
  using flat_thread_error [OF assms]
  by (auto simp: thread_model_init_def thread_model_refresh_def)

theorem flat_thread_malformed_raises_witness:
  "\<not> list_all is_message_leaf (leaves ex_bad_tree)
   \<and> (\<exists>e. (e = TypeError \<or> e = KeyError)
         \<and> flat_thread ex_bad_tree = Inl e
         \<and> thread_model_init ''t1'' ex_bad_tree = Inl e
         \<and> thread_model_refresh ex_bad_tree ex_model = (ex_model\<lparr>model_d := ex_bad_tree\<rparr>, Some e)
         \<and> model_thread (fst (thread_model_refresh ex_bad_tree ex_model)) = model_thread ex_model)"
proof -
  have h: "\<not> list_all is_message_leaf (leaves ex_bad_tree)"
    by (simp add: ex_bad_tree_def is_message_leaf_def mk_message_def)
  from h flat_thread_malformed_raises [OF h] show ?thesis
    by (rule conjI)
qed

lemma flat_thread_ex_bad_tree: "flat_thread ex_bad_tree = Inl TypeError"
  by (simp add: flat_thread_def ex_bad_tree_def mk_message_def)

section \<open>ThreadModel: the default message\<close>

lemma first_unread_None:
  "first_unread k ms = None \<longleftrightarrow> (\<forall>m \<in> set ms. \<not> is_unread m)"
  by (induction ms arbitrary: k) auto

lemma first_unread_Some:
  assumes "first_unread k ms = Some i"
  shows "k \<le> i \<and> i - k < length ms \<and> is_unread (ms ! (i - k))
           \<and> (\<forall>j < i - k. \<not> is_unread (ms ! j))"
  using assms
proof (induction ms arbitrary: k)
  case Nil
  then show ?case by simp
next
  case (Cons m ms)
  show ?case
  proof (cases "is_unread m")
    case True
    with Cons.prems show ?thesis by simp
  next
    case False
    with Cons.prems have "first_unread (Suc k) ms = Some i"
      by simp
    from Cons.IH [OF this] have ih: "Suc k \<le> i" "i - Suc k < length ms"
      "is_unread (ms ! (i - Suc k))" "\<forall>j < i - Suc k. \<not> is_unread (ms ! j)"
      by simp_all
    from ih(1) have eq: "i - k = Suc (i - Suc k)"
      by simp
    have "\<not> is_unread ((m # ms) ! j)" if "j < i - k" for j
      using that False ih(4) eq by (cases j) simp_all
    with ih eq show ?thesis
      by simp
  qed
qed

text \<open>
  C8. \<open>default_message\<close> returns the index of the first message of the flattened
  thread whose tags contain \<^verbatim>\<open>unread\<close>, when there is one; otherwise the index of the
  last message; and \<open>-1\<close> on an empty thread.
\<close>

theorem default_message_first_unread_else_last:
  "((\<exists>m \<in> set (model_thread tm). is_unread m) \<longrightarrow>
      (\<exists>i < length (model_thread tm). default_message tm = int i
         \<and> is_unread (model_thread tm ! i)
         \<and> (\<forall>j < i. \<not> is_unread (model_thread tm ! j))))
   \<and> ((\<forall>m \<in> set (model_thread tm). \<not> is_unread m) \<longrightarrow>
        default_message tm = int (length (model_thread tm)) - 1)
   \<and> (model_thread tm = [] \<longrightarrow> default_message tm = - 1)"
proof (intro conjI impI)
  assume "\<exists>m \<in> set (model_thread tm). is_unread m"
  then have "first_unread 0 (model_thread tm) \<noteq> None"
    by (simp add: first_unread_None)
  then obtain i where i: "first_unread 0 (model_thread tm) = Some i"
    by blast
  from first_unread_Some [OF i] i
  show "\<exists>i < length (model_thread tm). default_message tm = int i
          \<and> is_unread (model_thread tm ! i)
          \<and> (\<forall>j < i. \<not> is_unread (model_thread tm ! j))"
    by (auto simp: default_message_def)
next
  assume "\<forall>m \<in> set (model_thread tm). \<not> is_unread m"
  then have "first_unread 0 (model_thread tm) = None"
    by (simp add: first_unread_None)
  then show "default_message tm = int (length (model_thread tm)) - 1"
    by (simp add: default_message_def num_messages_def)
next
  assume "model_thread tm = []"
  then show "default_message tm = - 1"
    by (simp add: default_message_def num_messages_def)
qed

lemma ex_model_unread:
  "is_unread (model_thread ex_model ! 0)" "\<not> is_unread (model_thread ex_model ! 1)"
  "is_unread (model_thread ex_model ! 2)" "\<not> is_unread (model_thread ex_model ! 3)"
  by (simp_all add: ex_model_def is_unread_def mk_message_def)

theorem default_message_first_unread_else_last_witness:
  "(\<exists>m \<in> set (model_thread ex_model). is_unread m) \<and> default_message ex_model = 0
   \<and> \<not> is_unread (mk_message ''m1'' 30 [''inbox''])
   \<and> default_message (ex_model\<lparr>model_thread := [mk_message ''m1'' 30 [''inbox'']]\<rparr>) = 0
   \<and> model_thread (ex_model\<lparr>model_thread := []\<rparr>) = []
   \<and> default_message (ex_model\<lparr>model_thread := []\<rparr>) = - 1"
proof -
  have a: "\<exists>m \<in> set (model_thread ex_model). is_unread m"
    by (simp add: ex_model_def is_unread_def mk_message_def)
  from default_message_first_unread_else_last [of ex_model] a
  obtain i where i: "i < length (model_thread ex_model)" "default_message ex_model = int i"
    "\<forall>j < i. \<not> is_unread (model_thread ex_model ! j)"
    by blast
  have "i = 0"
  proof (rule ccontr)
    assume "i \<noteq> 0"
    with i(3) have "\<not> is_unread (model_thread ex_model ! 0)" by simp
    with ex_model_unread(1) show False by simp
  qed
  with i(2) have b: "default_message ex_model = 0" by simp
  have c: "\<forall>m \<in> set (model_thread (ex_model\<lparr>model_thread := [mk_message ''m1'' 30 [''inbox'']]\<rparr>)). \<not> is_unread m"
    by (simp add: is_unread_def mk_message_def)
  with default_message_first_unread_else_last [of "ex_model\<lparr>model_thread := [mk_message ''m1'' 30 [''inbox'']]\<rparr>"]
  have d: "default_message (ex_model\<lparr>model_thread := [mk_message ''m1'' 30 [''inbox'']]\<rparr>) = 0"
    by simp
  have e: "model_thread (ex_model\<lparr>model_thread := []\<rparr>) = []"
    by simp
  with default_message_first_unread_else_last [of "ex_model\<lparr>model_thread := []\<rparr>"]
  have f: "default_message (ex_model\<lparr>model_thread := []\<rparr>) = - 1"
    by blast
  have g: "\<not> is_unread (mk_message ''m1'' 30 [''inbox''])"
    by (simp add: is_unread_def mk_message_def)
  from a b g d e f show ?thesis
    by blast
qed

section \<open>ThreadPanel.refresh and the selected message\<close>

lemma thread_panel_refresh_current_message:
  "current_message (fst (thread_panel_refresh new_d p)) = current_message p"
  by (simp add: thread_panel_refresh_def thread_model_refresh_def Let_def
      split: sum.splits prod.splits option.splits)

lemma thread_panel_refresh_in_range:
  assumes "flat_thread new_d = Inr ms" and "0 \<le> current_message p"
    and "current_message p < int (length ms)"
  shows "thread_panel_refresh new_d p =
           (p\<lparr>panel_model := (panel_model p)\<lparr>model_d := new_d, model_thread := ms\<rparr>,
              subject := subject_of (ms ! nat (current_message p))\<rparr>, None)"
  using assms
  by (simp add: thread_panel_refresh_def thread_model_refresh_def message_at_def
      num_messages_def Let_def)

lemma thread_panel_refresh_out_of_range:
  assumes "flat_thread new_d = Inr ms" and "int (length ms) \<le> current_message p"
  shows "thread_panel_refresh new_d p =
           (p\<lparr>panel_model := (panel_model p)\<lparr>model_d := new_d, model_thread := ms\<rparr>\<rparr>,
            Some IndexError)"
  using assms
  by (simp add: thread_panel_refresh_def thread_model_refresh_def message_at_def
      num_messages_def Let_def)

lemma search_panel_refresh_row:
  "current_row (search_panel_refresh new_rows sp) =
     (if int (length new_rows) \<le> current_row sp then int (length new_rows) - 1
      else current_row sp)"
  by (simp add: search_panel_refresh_def num_threads_def Let_def)

lemma flat_thread_ex_short_tree:
  "flat_thread ex_short_tree = Inr [mk_message ''m2'' 10 [''unread''], mk_message ''m3'' 10 [''inbox'']]"
  by (simp add: flat_thread_def ex_short_tree_def mk_message_def)

text \<open>
  C4, on the code: the panel shows the fourth message (index 3) of a thread, and the
  indexer then returns the thread with two messages only. \<open>refresh\<close> replaces the
  snapshot, raises IndexError at \<^verbatim>\<open>message_at\<close>, and leaves \<open>current_message\<close> at 3,
  which is not an index of the new thread; the index is not clamped to 1.
\<close>

theorem thread_panel_refresh_shrunk_thread:
  "thread_panel_refresh ex_short_tree ex_panel =
     (ex_panel\<lparr>panel_model := ex_model\<lparr>model_d := ex_short_tree,
         model_thread := [mk_message ''m2'' 10 [''unread''], mk_message ''m3'' 10 [''inbox'']]\<rparr>\<rparr>,
      Some IndexError)
   \<and> current_message (fst (thread_panel_refresh ex_short_tree ex_panel)) = 3
   \<and> num_messages (panel_model (fst (thread_panel_refresh ex_short_tree ex_panel))) = 2"
proof -
  have "int (length [mk_message ''m2'' 10 [''unread''], mk_message ''m3'' 10 [''inbox'']])
          \<le> current_message ex_panel"
    by (simp add: ex_panel_def)
  from thread_panel_refresh_out_of_range [OF flat_thread_ex_short_tree this]
  show ?thesis
    by (simp add: ex_panel_def num_messages_def)
qed

section \<open>Tag expressions sent to the indexer\<close>

lemma add_sign_toggle_expr: "add_sign (toggle_expr tag ts) = toggle_expr tag ts"
  by (simp add: add_sign_def toggle_expr_def)

lemma truthy_msg_id: "msg_id m = Some i \<Longrightarrow> truthy m"
  by (simp add: truthy_def)

lemma row_truthy_thread: "row_thread r = Some t \<Longrightarrow> row_truthy r"
  by (simp add: row_truthy_def)

lemma tag_message_runs:
  assumes "message_at (panel_model p) (current_message p) = Inr m" and "msg_id m = Some i"
  shows "runs (snd (fst (tag_message new_d e (p, w))))
           = runs w @ [[''notmuch'', ''tag''] @ py_split (add_sign e) @ [''--'', ''id:'' @ i]]"
  using assms truthy_msg_id [OF assms(2)]
  by (simp add: run_cmd_def invalidate_panels_def Let_def split: prod.splits)

lemma toggle_message_tag_runs:
  assumes "message_at (panel_model p) (current_message p) = Inr m" and "msg_id m = Some i"
    and "tags m = Some ts"
  shows "runs (snd (fst (toggle_message_tag new_d tag (p, w))))
           = runs w @ [[''notmuch'', ''tag''] @ py_split (toggle_expr tag ts) @ [''--'', ''id:'' @ i]]"
proof -
  have "toggle_message_tag new_d tag (p, w) = tag_message new_d (toggle_expr tag ts) (p, w)"
    using assms truthy_msg_id [OF assms(2)] by (simp del: tag_message.simps)
  then show ?thesis
    using tag_message_runs [OF assms(1,2)] by (simp only: add_sign_toggle_expr)
qed

lemma tag_thread_runs:
  assumes "thread_json sp (current_row sp) = Some r" and "row_thread r = Some t" and "t \<noteq> []"
  shows "runs (snd (tag_thread new_rows e (sp, w)))
           = runs w @ [[''notmuch'', ''tag''] @ py_split (add_sign e) @ [''--'', ''thread:'' @ t]]"
  using assms row_truthy_thread [OF assms(2)]
  by (simp add: thread_id_def run_cmd_def invalidate_panels_def Let_def)

lemma toggle_thread_tag_runs:
  assumes "thread_json sp (current_row sp) = Some r" and "row_thread r = Some t" and "t \<noteq> []"
    and "row_tags r = Some rs"
  shows "runs (snd (fst (toggle_thread_tag new_rows tag (sp, w))))
           = runs w @ [[''notmuch'', ''tag''] @ py_split (toggle_expr tag rs) @ [''--'', ''thread:'' @ t]]"
proof -
  have "toggle_thread_tag new_rows tag (sp, w) = (tag_thread new_rows (toggle_expr tag rs) (sp, w), None)"
    using assms row_truthy_thread [OF assms(2)] by (simp del: tag_thread.simps)
  then show ?thesis
    using tag_thread_runs [OF assms(1,2,3)] by (simp only: add_sign_toggle_expr fst_conv)
qed

text \<open>
  C5, as the code has it. On a current message with an id and tags, and on a current
  search row with a thread id and tags, toggling a tag runs \<^verbatim>\<open>notmuch tag\<close> with the
  expression \<^verbatim>\<open>-T\<close> when \<open>T\<close> is among the tags of the target and \<^verbatim>\<open>+T\<close> otherwise.
  Applying a tag expression prepends \<^verbatim>\<open>+\<close> when the expression contains neither
  \<^verbatim>\<open>+\<close> nor \<^verbatim>\<open>-\<close> at any position; an expression that contains one of them anywhere
  is passed on as it is. The expression reaches the indexer cut at white space.
\<close>

theorem tag_expression_sent:
  assumes "message_at (panel_model p) (current_message p) = Inr m"
    and "msg_id m = Some i" and "tags m = Some ts"
    and "thread_json sp (current_row sp) = Some r"
    and "row_thread r = Some t" and "t \<noteq> []" and "row_tags r = Some rs"
  shows "runs (snd (fst (toggle_message_tag new_d tag (p, w))))
           = runs w @ [[''notmuch'', ''tag'']
                @ py_split (if tag \<in> set ts then ''-'' @ tag else ''+'' @ tag)
                @ [''--'', ''id:'' @ i]]
       \<and> runs (snd (fst (toggle_thread_tag new_rows tag (sp, w))))
           = runs w @ [[''notmuch'', ''tag'']
                @ py_split (if tag \<in> set rs then ''-'' @ tag else ''+'' @ tag)
                @ [''--'', ''thread:'' @ t]]
       \<and> runs (snd (fst (tag_message new_d e (p, w))))
           = runs w @ [[''notmuch'', ''tag'']
                @ py_split (if CHR ''+'' \<in> set e \<or> CHR ''-'' \<in> set e then e else ''+'' @ e)
                @ [''--'', ''id:'' @ i]]
       \<and> runs (snd (tag_thread new_rows e (sp, w)))
           = runs w @ [[''notmuch'', ''tag'']
                @ py_split (if CHR ''+'' \<in> set e \<or> CHR ''-'' \<in> set e then e else ''+'' @ e)
                @ [''--'', ''thread:'' @ t]]"
proof -
  have sign: "add_sign e = (if CHR ''+'' \<in> set e \<or> CHR ''-'' \<in> set e then e else ''+'' @ e)"
    by (simp add: add_sign_def)
  have tog: "toggle_expr tag xs = (if tag \<in> set xs then ''-'' @ tag else ''+'' @ tag)" for xs
    by (simp add: toggle_expr_def)
  show ?thesis
    using toggle_message_tag_runs [OF assms(1,2,3), of new_d tag w]
      toggle_thread_tag_runs [OF assms(4,5,6,7), of new_rows tag w]
      tag_message_runs [OF assms(1,2), of new_d e w]
      tag_thread_runs [OF assms(4,5,6), of new_rows e w]
    by (simp only: sign tog simp_thms)
qed

lemma ex_panel_message:
  "message_at (panel_model ex_panel) (current_message ex_panel) = Inr (mk_message ''m1'' 30 [''inbox''])"
  by (simp add: ex_panel_def ex_model_def message_at_def num_messages_def)

lemma ex_search_row:
  "thread_json ex_search (current_row ex_search) =
     Some \<lparr>row_thread = Some ''000a'', row_tags = Some [''inbox'', ''unread''],
           row_other_keys = [''subject'']\<rparr>"
  by (simp add: ex_search_def thread_json_def)

lemma py_split_examples:
  "py_split ''+flagged'' = [''+flagged'']"
  "py_split ''-unread'' = [''-unread'']"
  "py_split ''to-do'' = [''to-do'']"
  "py_split ''+a  -b'' = [''+a'', ''-b'']"
  by (simp_all add: py_split_def py_isspace_def)

theorem tag_expression_sent_witness:
  "message_at (panel_model ex_panel) (current_message ex_panel) = Inr (mk_message ''m1'' 30 [''inbox''])
   \<and> msg_id (mk_message ''m1'' 30 [''inbox'']) = Some ''m1''
   \<and> tags (mk_message ''m1'' 30 [''inbox'']) = Some [''inbox'']
   \<and> thread_json ex_search (current_row ex_search) =
        Some \<lparr>row_thread = Some ''000a'', row_tags = Some [''inbox'', ''unread''],
              row_other_keys = [''subject'']\<rparr>
   \<and> runs (snd (fst (toggle_message_tag ex_tree ''unread'' (ex_panel, ex_world))))
        = [[''notmuch'', ''tag'', ''+unread'', ''--'', ''id:m1'']]
   \<and> runs (snd (fst (toggle_thread_tag [] ''unread'' (ex_search, ex_world))))
        = [[''notmuch'', ''tag'', ''-unread'', ''--'', ''thread:000a'']]
   \<and> runs (snd (fst (tag_message ex_tree ''flagged'' (ex_panel, ex_world))))
        = [[''notmuch'', ''tag'', ''+flagged'', ''--'', ''id:m1'']]
   \<and> runs (snd (tag_thread [] ''flagged'' (ex_search, ex_world)))
        = [[''notmuch'', ''tag'', ''+flagged'', ''--'', ''thread:000a'']]"
proof -
  have h1: "msg_id (mk_message ''m1'' 30 [''inbox'']) = Some ''m1''"
    and h2: "tags (mk_message ''m1'' 30 [''inbox'']) = Some [''inbox'']"
    by (simp_all add: mk_message_def)
  have r1: "row_thread \<lparr>row_thread = Some ''000a'', row_tags = Some [''inbox'', ''unread''],
              row_other_keys = [''subject'']\<rparr> = Some ''000a''"
    and r2: "''000a'' \<noteq> []"
    and r3: "row_tags \<lparr>row_thread = Some ''000a'', row_tags = Some [''inbox'', ''unread''],
              row_other_keys = [''subject'']\<rparr> = Some [''inbox'', ''unread'']"
    by simp_all
  from tag_expression_sent [OF ex_panel_message h1 h2 ex_search_row r1 r2 r3,
      of ex_tree "''unread''" ex_world "[]" "''flagged''"]
  have "runs (snd (fst (toggle_message_tag ex_tree ''unread'' (ex_panel, ex_world))))
          = [[''notmuch'', ''tag'', ''+unread'', ''--'', ''id:m1'']]
        \<and> runs (snd (fst (toggle_thread_tag [] ''unread'' (ex_search, ex_world))))
          = [[''notmuch'', ''tag'', ''-unread'', ''--'', ''thread:000a'']]
        \<and> runs (snd (fst (tag_message ex_tree ''flagged'' (ex_panel, ex_world))))
          = [[''notmuch'', ''tag'', ''+flagged'', ''--'', ''id:m1'']]
        \<and> runs (snd (tag_thread [] ''flagged'' (ex_search, ex_world)))
          = [[''notmuch'', ''tag'', ''+flagged'', ''--'', ''thread:000a'']]"
    by (simp add: py_split_def py_isspace_def ex_world_def)
  with ex_panel_message h1 h2 ex_search_row show ?thesis
    by simp
qed

text \<open>
  The tag expression \<^verbatim>\<open>to-do\<close> has no sign in front, and it is not normalised: the
  indexer is called with \<^verbatim>\<open>to-do\<close>, not with \<^verbatim>\<open>+to-do\<close>.
\<close>

theorem tag_message_unsigned_counterexample:
  "hd ''to-do'' \<noteq> CHR ''+'' \<and> hd ''to-do'' \<noteq> CHR ''-''
   \<and> runs (snd (fst (tag_message ex_tree ''to-do'' (ex_panel, ex_world))))
        = [[''notmuch'', ''tag'', ''to-do'', ''--'', ''id:m1'']]
   \<and> runs (snd (fst (tag_message ex_tree ''to-do'' (ex_panel, ex_world))))
        \<noteq> [[''notmuch'', ''tag'', ''+to-do'', ''--'', ''id:m1'']]"
proof -
  have "msg_id (mk_message ''m1'' 30 [''inbox'']) = Some ''m1''"
    by (simp add: mk_message_def)
  from tag_message_runs [OF ex_panel_message this, of ex_tree "''to-do''" ex_world]
  show ?thesis
    by (simp add: add_sign_def py_split_def py_isspace_def ex_world_def)
qed

section \<open>SendmailThread: attachments\<close>

lemma attach_all_unreadable:
  assumes "att \<in> set atts" and "read_file ev att = None"
  shows "attach_all ev atts e = Inl NameError"
  using assms
  by (induction atts arbitrary: e) (auto simp: Let_def split: option.splits)

lemma sendmail_run_unreadable:
  assumes "att \<in> set (fst (build_eml ev (message_string c)))" and "read_file ev att = None"
  shows "sendmail_run ev (c, w) = Some ((c, w), Some NameError)"
  using attach_all_unreadable [OF assms, of "snd (build_eml ev (message_string c))"]
  by (simp add: sendmail_run_def Let_def)

lemma attach_all_readable_example:
  "attach_all (ex_env ex_headers (\<lambda>path. if path = ''~/notes.txt'' then Some ''data'' else None)
       (TakesInput (ExitsAfter 0 0)) CannotStart)
     [''~/notes.txt''] ex_eml
   = Inr (ex_eml\<lparr>eml_parts :=
       [\<lparr>part_data = ''data'', maintype = ''text'', subtype = ''plain'', filename = ''notes.txt''\<rparr>]\<rparr>)"
  by (simp add: ex_env_def ex_eml_def mime_type_def basename_def Let_def)

text \<open>
  C2, on the code: a draft whose attachment field names a file that cannot be read.
  After \<open>send\<close>, the thread body ends with NameError: nothing is printed, no message
  is handed to the transfer agent, nothing is stored or tagged, and the status stays
  \<^verbatim>\<open>sending\<close>.
\<close>

theorem sendmail_run_missing_attachment:
  "sendmail_run (ex_env (ex_headers @ [(''A'', ''/nonexistent'')]) (\<lambda>path. None)
       (TakesInput (ExitsAfter 0 0)) CannotStart)
       (send (ex_draft, cworld_init))
     = Some (send (ex_draft, cworld_init), Some NameError)
   \<and> status (fst (send (ex_draft, cworld_init))) = S_sending
   \<and> mta_stdin (snd (send (ex_draft, cworld_init))) = []
   \<and> agents (snd (send (ex_draft, cworld_init))) = []
   \<and> printed (snd (send (ex_draft, cworld_init))) = []
   \<and> sent_maildir (snd (send (ex_draft, cworld_init))) = []"
proof -
  let ?ev = "ex_env (ex_headers @ [(''A'', ''/nonexistent'')]) (\<lambda>path. None)
    (TakesInput (ExitsAfter 0 0)) CannotStart"
  have a: "''/nonexistent'' \<in> set (fst (build_eml ?ev (message_string (fst (send (ex_draft, cworld_init))))))"
    by (simp add: build_eml_def ex_env_def ex_headers_def Let_def)
  have b: "read_file ?ev ''/nonexistent'' = None"
    by (simp add: ex_env_def)
  from sendmail_run_unreadable [OF a b, of "snd (send (ex_draft, cworld_init))"]
  show ?thesis
    by (simp add: send_def ex_draft_def compose_init_def cworld_init_def Let_def)
qed

section \<open>SendmailThread: the outcome of the transfer agent\<close>


lemma sendmail_run_rejected:
  assumes "attach_all ev (fst (build_eml ev (message_string c))) (snd (build_eml ev (message_string c))) = Inr e"
    and "sendmail ev e = TakesInput (ExitsAfter t rc)" and "t \<le> 30" and "rc \<noteq> 0"
  shows "sendmail_run ev (c, w) =
           Some ((c\<lparr>status := S_error\<rparr>,
                  w\<lparr>mta_stdin := mta_stdin w @ [e], agents := agents w @ [Reaped rc]\<rparr>), None)"
  using assms by (simp add: sendmail_run_def wait_def Let_def)


lemma sendmail_run_accepted:
  assumes "attach_all ev (fst (build_eml ev (message_string c))) (snd (build_eml ev (message_string c))) = Inr e"
    and "sendmail ev e = TakesInput (ExitsAfter t 0)" and "t \<le> 30"
  shows "sendmail_run ev (c, w) =
           Some (after_accept e (c, w\<lparr>mta_stdin := mta_stdin w @ [e], agents := agents w @ [Reaped 0]\<rparr>))"
  using assms by (simp add: sendmail_run_def wait_def Let_def)



lemma ex_attach:
  "attach_all (ex_env ex_headers files mta ed)
     (fst (build_eml (ex_env ex_headers files mta ed) (message_string c)))
     (snd (build_eml (ex_env ex_headers files mta ed) (message_string c))) = Inr ex_eml"
  by (simp add: build_eml_def ex_env_def ex_headers_def ex_eml_def has_header_def lower_code_def Let_def)

lemma ex_sent_world:
  "sent_maildir (snd (send (ex_draft, cworld_init))) = []"
  "runs (snd (send (ex_draft, cworld_init))) = []"
  "invalidations (snd (send (ex_draft, cworld_init))) = 0"
  "agents (snd (send (ex_draft, cworld_init))) = []"
  "mta_stdin (snd (send (ex_draft, cworld_init))) = []"
  "status (fst (send (ex_draft, cworld_init))) = S_sending"
  "sendmail_thread (fst (send (ex_draft, cworld_init))) = Started"
  by (simp_all add: send_def ex_draft_def compose_init_def cworld_init_def Let_def)



lemma after_accept_maildir:
  "sent_maildir (snd (fst (after_accept e (c, w)))) = sent_maildir w @ [(e, ''S'')]"
  by (simp add: after_accept_def run_cmd_def invalidate_panels_def Let_def split: option.splits)

lemma after_accept_no_reply:
  assumes "reply_to c = None \<or> (\<exists>r. reply_to c = Some r \<and> \<not> truthy r)"
  shows "after_accept e (c, w) =
           ((c\<lparr>status := S_sent\<rparr>,
             w\<lparr>sent_maildir := sent_maildir w @ [(e, ''S'')],
               runs := runs w @ [[''notmuch'', ''new'']],
               invalidations := Suc (invalidations w)\<rparr>), None)"
  using assms
  by (auto simp: after_accept_def run_cmd_def invalidate_panels_def Let_def)

lemma after_accept_reply:
  assumes "reply_to c = Some r" and "msg_id r = Some i"
  shows "after_accept e (c, w) =
           ((c\<lparr>status := S_sent\<rparr>,
             w\<lparr>sent_maildir := sent_maildir w @ [(e, ''S'')],
               runs := runs w @ [[''notmuch'', ''tag'', ''+replied'', ''--'', ''id:'' @ i],
                                 [''notmuch'', ''new'']],
               invalidations := Suc (invalidations w)\<rparr>), None)"
  using assms truthy_msg_id [OF assms(2)]
  by (simp add: after_accept_def run_cmd_def invalidate_panels_def Let_def)

text \<open>
  C3, as the code has it. When the message \<open>e\<close> has been handed to the transfer agent
  and the agent exits with status zero within the wait of 30 seconds, \<open>e\<close> is appended
  to the sent maildir with the flag \<^verbatim>\<open>S\<close> (seen) and no other flag. If the draft is
  not a reply, the indexer is then asked to pick up new mail, the views are
  invalidated, and the status becomes \<^verbatim>\<open>sent\<close>; if the draft is a reply to a message
  with an id, that message is tagged \<^verbatim>\<open>+replied\<close> before.
\<close>

theorem sendmail_accepted_outcome:
  assumes "attach_all ev (fst (build_eml ev (message_string c))) (snd (build_eml ev (message_string c))) = Inr e"
    and "sendmail ev e = TakesInput (ExitsAfter t 0)" and "t \<le> 30"
  shows "\<exists>c' w' x. sendmail_run ev (c, w) = Some ((c', w'), x)
       \<and> sent_maildir w' = sent_maildir w @ [(e, ''S'')]
       \<and> (reply_to c = None \<or> (\<exists>r. reply_to c = Some r \<and> \<not> truthy r) \<longrightarrow>
            status c' = S_sent
            \<and> runs w' = runs w @ [[''notmuch'', ''new'']]
            \<and> invalidations w' = Suc (invalidations w)
            \<and> x = None)
       \<and> (\<forall>r i. reply_to c = Some r \<and> msg_id r = Some i \<longrightarrow>
            status c' = S_sent
            \<and> runs w' =
                runs w @ [[''notmuch'', ''tag'', ''+replied'', ''--'', ''id:'' @ i],
                          [''notmuch'', ''new'']]
            \<and> invalidations w' = Suc (invalidations w)
            \<and> x = None)"
proof -
  define w2 where "w2 = w\<lparr>mta_stdin := mta_stdin w @ [e], agents := agents w @ [Reaped 0]\<rparr>"
  define res where "res = after_accept e (c, w2)"
  have run: "sendmail_run ev (c, w) = Some ((fst (fst res), snd (fst res)), snd res)"
    using sendmail_run_accepted [OF assms, of w] by (simp add: res_def w2_def)
  have w2: "sent_maildir w2 = sent_maildir w" "runs w2 = runs w" "invalidations w2 = invalidations w"
    by (simp_all add: w2_def)
  have a: "sent_maildir (snd (fst res)) = sent_maildir w @ [(e, ''S'')]"
    by (simp add: res_def after_accept_maildir w2)
  have b: "status (fst (fst res)) = S_sent
      \<and> runs (snd (fst res)) = runs w @ [[''notmuch'', ''new'']]
      \<and> invalidations (snd (fst res)) = Suc (invalidations w)
      \<and> snd res = None"
    if "reply_to c = None \<or> (\<exists>r. reply_to c = Some r \<and> \<not> truthy r)"
    by (simp add: res_def after_accept_no_reply [OF that] w2)
  have d: "status (fst (fst res)) = S_sent
      \<and> runs (snd (fst res)) =
          runs w @ [[''notmuch'', ''tag'', ''+replied'', ''--'', ''id:'' @ i], [''notmuch'', ''new'']]
      \<and> invalidations (snd (fst res)) = Suc (invalidations w)
      \<and> snd res = None"
    if "reply_to c = Some r \<and> msg_id r = Some i" for r i
    using that by (simp add: res_def after_accept_reply [of c r i] w2)
  from run a b d show ?thesis
    by blast
qed

theorem sendmail_accepted_outcome_witness:
  "attach_all (ex_env ex_headers (\<lambda>path. None) (TakesInput (ExitsAfter 2 0)) CannotStart)
     (fst (build_eml (ex_env ex_headers (\<lambda>path. None) (TakesInput (ExitsAfter 2 0)) CannotStart)
        (message_string (ex_draft\<lparr>reply_to := Some (mk_message ''m1'' 30 [''inbox''])\<rparr>))))
     (snd (build_eml (ex_env ex_headers (\<lambda>path. None) (TakesInput (ExitsAfter 2 0)) CannotStart)
        (message_string (ex_draft\<lparr>reply_to := Some (mk_message ''m1'' 30 [''inbox''])\<rparr>))))
     = Inr ex_eml
   \<and> sendmail (ex_env ex_headers (\<lambda>path. None) (TakesInput (ExitsAfter 2 0)) CannotStart) ex_eml
        = TakesInput (ExitsAfter 2 0)
   \<and> reply_to (ex_draft\<lparr>reply_to := Some (mk_message ''m1'' 30 [''inbox''])\<rparr>)
        = Some (mk_message ''m1'' 30 [''inbox''])
   \<and> msg_id (mk_message ''m1'' 30 [''inbox'']) = Some ''m1''
   \<and> (\<exists>c' w'. sendmail_run (ex_env ex_headers (\<lambda>path. None) (TakesInput (ExitsAfter 2 0)) CannotStart)
          (ex_draft\<lparr>reply_to := Some (mk_message ''m1'' 30 [''inbox''])\<rparr>, cworld_init)
          = Some ((c', w'), None)
        \<and> sent_maildir w' = [(ex_eml, ''S'')]
        \<and> status c' = S_sent
        \<and> runs w' = [[''notmuch'', ''tag'', ''+replied'', ''--'', ''id:m1''], [''notmuch'', ''new'']])
   \<and> reply_to ex_draft = None
   \<and> (\<exists>c' w'. sendmail_run (ex_env ex_headers (\<lambda>path. None) (TakesInput (ExitsAfter 2 0)) CannotStart)
          (ex_draft, cworld_init) = Some ((c', w'), None)
        \<and> sent_maildir w' = [(ex_eml, ''S'')]
        \<and> status c' = S_sent
        \<and> runs w' = [[''notmuch'', ''new'']])"
proof -
  let ?ev = "ex_env ex_headers (\<lambda>path. None) (TakesInput (ExitsAfter 2 0)) CannotStart"
  let ?c = "ex_draft\<lparr>reply_to := Some (mk_message ''m1'' 30 [''inbox''])\<rparr>"
  note a1 = ex_attach [of "\<lambda>path. None" "TakesInput (ExitsAfter 2 0)" CannotStart ?c]
  note a2 = ex_attach [of "\<lambda>path. None" "TakesInput (ExitsAfter 2 0)" CannotStart ex_draft]
  have m: "sendmail ?ev ex_eml = TakesInput (ExitsAfter 2 0)"
    by (simp add: ex_env_def)
  have t: "(2::nat) \<le> 30"
    by simp
  have r: "reply_to ?c = Some (mk_message ''m1'' 30 [''inbox''])"
    and i: "msg_id (mk_message ''m1'' 30 [''inbox'']) = Some ''m1''"
    and n: "reply_to ex_draft = None"
    by (simp_all add: mk_message_def ex_draft_def compose_init_def)
  have w0: "sent_maildir cworld_init = []" "runs cworld_init = []"
    by (simp_all add: cworld_init_def)
  from sendmail_accepted_outcome [OF a1 m t, of cworld_init] r i
  have b: "\<exists>c' w'. sendmail_run ?ev (?c, cworld_init) = Some ((c', w'), None)
      \<and> sent_maildir w' = [(ex_eml, ''S'')]
      \<and> status c' = S_sent
      \<and> runs w' = [[''notmuch'', ''tag'', ''+replied'', ''--'', ''id:m1''], [''notmuch'', ''new'']]"
    by (auto simp: w0)
  from sendmail_accepted_outcome [OF a2 m t, of cworld_init] n
  have d: "\<exists>c' w'. sendmail_run ?ev (ex_draft, cworld_init) = Some ((c', w'), None)
      \<and> sent_maildir w' = [(ex_eml, ''S'')]
      \<and> status c' = S_sent
      \<and> runs w' = [[''notmuch'', ''new'']]"
    by (auto simp: w0)
  from a1 m r i b n d show ?thesis
    by (intro conjI)
qed

text \<open>
  The draft of three header fields, accepted by the transfer agent: the message stored
  in the sent maildir carries the flag \<^verbatim>\<open>S\<close> and not the flag \<^verbatim>\<open>R\<close> (replied).
\<close>

theorem sent_flags_counterexample:
  "sendmail (ex_env ex_headers (\<lambda>path. None) (TakesInput (ExitsAfter 2 0)) CannotStart) ex_eml
     = TakesInput (ExitsAfter 2 0)
   \<and> sendmail_run (ex_env ex_headers (\<lambda>path. None) (TakesInput (ExitsAfter 2 0)) CannotStart)
        (send (ex_draft, cworld_init))
     = Some (((fst (send (ex_draft, cworld_init)))\<lparr>status := S_sent\<rparr>,
              (snd (send (ex_draft, cworld_init)))
                \<lparr>mta_stdin := [ex_eml], agents := [Reaped 0], sent_maildir := [(ex_eml, ''S'')],
                 runs := [[''notmuch'', ''new'']], invalidations := 1\<rparr>), None)
   \<and> sent_maildir (snd (fst (the (sendmail_run
        (ex_env ex_headers (\<lambda>path. None) (TakesInput (ExitsAfter 2 0)) CannotStart)
        (send (ex_draft, cworld_init)))))) = [(ex_eml, ''S'')]
   \<and> CHR ''R'' \<notin> set (snd (last (sent_maildir (snd (fst (the (sendmail_run
        (ex_env ex_headers (\<lambda>path. None) (TakesInput (ExitsAfter 2 0)) CannotStart)
        (send (ex_draft, cworld_init)))))))))"
proof -
  let ?ev = "ex_env ex_headers (\<lambda>path. None) (TakesInput (ExitsAfter 2 0)) CannotStart"
  let ?c = "fst (send (ex_draft, cworld_init))"
  let ?w = "snd (send (ex_draft, cworld_init))"
  have m: "sendmail ?ev ex_eml = TakesInput (ExitsAfter 2 0)"
    by (simp add: ex_env_def)
  have n: "reply_to ?c = None \<or> (\<exists>r. reply_to ?c = Some r \<and> \<not> truthy r)"
    by (simp add: send_def ex_draft_def compose_init_def Let_def)
  have "sendmail_run ?ev (?c, ?w)
      = Some (after_accept ex_eml (?c, ?w\<lparr>mta_stdin := mta_stdin ?w @ [ex_eml], agents := agents ?w @ [Reaped 0]\<rparr>))"
    by (rule sendmail_run_accepted [OF ex_attach m]) simp
  then have "sendmail_run ?ev (send (ex_draft, cworld_init))
      = Some ((?c\<lparr>status := S_sent\<rparr>,
               ?w\<lparr>mta_stdin := [ex_eml], agents := [Reaped 0], sent_maildir := [(ex_eml, ''S'')],
                  runs := [[''notmuch'', ''new'']], invalidations := 1\<rparr>), None)"
    by (simp add: after_accept_no_reply [OF n] ex_sent_world)
  with m show ?thesis
    by simp
qed

section \<open>EditorThread: what an edit leaves in the draft\<close>

lemma universal_newlines_id:
  "CHR 0x0D \<notin> set s \<Longrightarrow> universal_newlines s = s"
  by (induction s) auto

lemma editor_run_fields:
  "status (fst (editor_run ev c)) = status c"
  "sendmail_thread (fst (editor_run ev c)) = sendmail_thread c"
  "editor_thread (fst (editor_run ev c)) = editor_thread c"
  "reply_to (fst (editor_run ev c)) = reply_to c"
  by (simp_all add: editor_run_def split: editor_outcome.splits temp_file.splits)

lemma editor_run_text:
  "message_string (fst (editor_run ev c)) =
     (case editor ev (message_string c) of
        CannotStart \<Rightarrow> message_string c
      | EditorExit rc FileGone \<Rightarrow> message_string c
      | EditorExit rc Undecodable \<Rightarrow> message_string c
      | EditorExit rc (FileText text) \<Rightarrow> universal_newlines text)"
  by (simp add: editor_run_def split: editor_outcome.splits temp_file.splits)

text \<open>
  C9, as the code has it. When a started editor thread has run, the editor attribute
  of the session is \<^verbatim>\<open>None\<close> again, the status line is what it was, and \<open>edit\<close>
  starts a new editor thread. The text of the draft is what it was before the edit
  when the editor could not be started, or when the temporary file can no longer be
  opened or decoded. When the editor has exited, with whatever status, and the file
  holds a text, the text of the draft is that content, read with the line endings
  \<^verbatim>\<open>\r\n\<close> and \<^verbatim>\<open>\r\<close> translated to \<^verbatim>\<open>\n\<close>; so a draft without carriage return that
  the editor leaves in the file as it was exported is unchanged.
\<close>

theorem editor_thread_outcome:
  assumes "editor_thread c = Started"
  shows "editor_thread (fst (step ev (c, w) EditorThreadRuns)) = NoThread
       \<and> status (fst (step ev (c, w) EditorThreadRuns)) = status c
       \<and> editor_thread (edit (fst (step ev (c, w) EditorThreadRuns))) = Started
       \<and> (editor ev (message_string c) = CannotStart \<longrightarrow>
            message_string (fst (step ev (c, w) EditorThreadRuns)) = message_string c)
       \<and> (\<forall>rc. editor ev (message_string c) = EditorExit rc FileGone
                \<or> editor ev (message_string c) = EditorExit rc Undecodable \<longrightarrow>
            message_string (fst (step ev (c, w) EditorThreadRuns)) = message_string c)
       \<and> (\<forall>rc text. editor ev (message_string c) = EditorExit rc (FileText text) \<longrightarrow>
            message_string (fst (step ev (c, w) EditorThreadRuns)) = universal_newlines text)
       \<and> (\<forall>rc. editor ev (message_string c) = EditorExit rc (FileText (message_string c))
                \<and> CHR 0x0D \<notin> set (message_string c) \<longrightarrow>
            message_string (fst (step ev (c, w) EditorThreadRuns)) = message_string c)"
proof -
  have st: "fst (step ev (c, w) EditorThreadRuns) = edit_done (fst (editor_run ev c))"
    using assms by simp
  have "editor_thread (edit_done (fst (editor_run ev c))) = NoThread"
    by (simp add: edit_done_def)
  moreover have "status (edit_done (fst (editor_run ev c))) = status c"
    by (simp add: edit_done_def editor_run_fields)
  moreover have "editor_thread (edit (edit_done (fst (editor_run ev c)))) = Started"
    by (simp add: edit_def edit_done_def)
  moreover have "message_string (edit_done (fst (editor_run ev c))) =
      (case editor ev (message_string c) of
         CannotStart \<Rightarrow> message_string c
       | EditorExit rc FileGone \<Rightarrow> message_string c
       | EditorExit rc Undecodable \<Rightarrow> message_string c
       | EditorExit rc (FileText text) \<Rightarrow> universal_newlines text)"
    by (simp add: edit_done_def editor_run_text)
  ultimately show ?thesis
    unfolding st by (auto simp: universal_newlines_id)
qed

theorem editor_thread_outcome_witness:
  "editor_thread (edit ex_draft) = Started
   \<and> editor (ex_env ex_headers (\<lambda>path. None) (TakesInput (ExitsAfter 2 0)) CannotStart)
        (message_string (edit ex_draft)) = CannotStart
   \<and> message_string (fst (step (ex_env ex_headers (\<lambda>path. None) (TakesInput (ExitsAfter 2 0)) CannotStart)
        (edit ex_draft, cworld_init) EditorThreadRuns)) = message_string (edit ex_draft)
   \<and> editor_thread (fst (step (ex_env ex_headers (\<lambda>path. None) (TakesInput (ExitsAfter 2 0)) CannotStart)
        (edit ex_draft, cworld_init) EditorThreadRuns)) = NoThread
   \<and> status (fst (step (ex_env ex_headers (\<lambda>path. None) (TakesInput (ExitsAfter 2 0)) CannotStart)
        (edit ex_draft, cworld_init) EditorThreadRuns)) = S_draft
   \<and> editor (ex_env ex_headers (\<lambda>path. None) (TakesInput (ExitsAfter 2 0))
          (EditorExit 0 (FileText ''To: c@x''))) (message_string (edit ex_draft))
        = EditorExit 0 (FileText ''To: c@x'')
   \<and> message_string (fst (step (ex_env ex_headers (\<lambda>path. None) (TakesInput (ExitsAfter 2 0))
          (EditorExit 0 (FileText ''To: c@x''))) (edit ex_draft, cworld_init) EditorThreadRuns))
        = ''To: c@x''
   \<and> editor (ex_env ex_headers (\<lambda>path. None) (TakesInput (ExitsAfter 2 0))
          (EditorExit 1 Undecodable)) (message_string (edit ex_draft))
        = EditorExit 1 Undecodable
   \<and> message_string (fst (step (ex_env ex_headers (\<lambda>path. None) (TakesInput (ExitsAfter 2 0))
          (EditorExit 1 Undecodable)) (edit ex_draft, cworld_init) EditorThreadRuns))
        = message_string (edit ex_draft)"
proof -
  let ?e1 = "ex_env ex_headers (\<lambda>path. None) (TakesInput (ExitsAfter 2 0)) CannotStart"
  let ?e2 = "ex_env ex_headers (\<lambda>path. None) (TakesInput (ExitsAfter 2 0)) (EditorExit 0 (FileText ''To: c@x''))"
  let ?e3 = "ex_env ex_headers (\<lambda>path. None) (TakesInput (ExitsAfter 2 0)) (EditorExit 1 Undecodable)"
  have h: "editor_thread (edit ex_draft) = Started"
    by (simp add: edit_def ex_draft_def compose_init_def)
  have s: "status (edit ex_draft) = S_draft"
    by (simp add: edit_def ex_draft_def compose_init_def)
  have o1: "editor ?e1 (message_string (edit ex_draft)) = CannotStart"
    and o2: "editor ?e2 (message_string (edit ex_draft)) = EditorExit 0 (FileText ''To: c@x'')"
    and o3: "editor ?e3 (message_string (edit ex_draft)) = EditorExit 1 Undecodable"
    by (simp_all add: ex_env_def)
  from editor_thread_outcome [OF h, of ?e1 cworld_init] o1 s
  have a: "message_string (fst (step ?e1 (edit ex_draft, cworld_init) EditorThreadRuns))
        = message_string (edit ex_draft)
      \<and> editor_thread (fst (step ?e1 (edit ex_draft, cworld_init) EditorThreadRuns)) = NoThread
      \<and> status (fst (step ?e1 (edit ex_draft, cworld_init) EditorThreadRuns)) = S_draft"
    by simp
  from editor_thread_outcome [OF h, of ?e2 cworld_init] o2
  have "message_string (fst (step ?e2 (edit ex_draft, cworld_init) EditorThreadRuns))
          = universal_newlines ''To: c@x''"
    by blast
  then have b: "message_string (fst (step ?e2 (edit ex_draft, cworld_init) EditorThreadRuns)) = ''To: c@x''"
    by simp
  from editor_thread_outcome [OF h, of ?e3 cworld_init] o3
  have d: "message_string (fst (step ?e3 (edit ex_draft, cworld_init) EditorThreadRuns))
          = message_string (edit ex_draft)"
    by blast
  from h o1 a o2 b o3 d show ?thesis
    by (intro conjI) simp_all
qed

text \<open>
  An editor that exits with status 1 after it has cut the temporary file down to its
  first bytes: the draft takes the content of the file and is not what it was before
  the edit.
\<close>

theorem editor_abnormal_exit_counterexample:
  "editor_thread (edit ex_draft) = Started
   \<and> editor (ex_env ex_headers (\<lambda>path. None) (TakesInput (ExitsAfter 2 0)) (EditorExit 1 (FileText ''From: '')))
        (message_string (edit ex_draft)) = EditorExit 1 (FileText ''From: '')
   \<and> message_string (fst (step (ex_env ex_headers (\<lambda>path. None) (TakesInput (ExitsAfter 2 0))
          (EditorExit 1 (FileText ''From: ''))) (edit ex_draft, cworld_init) EditorThreadRuns)) = ''From: ''
   \<and> message_string (fst (step (ex_env ex_headers (\<lambda>path. None) (TakesInput (ExitsAfter 2 0))
          (EditorExit 1 (FileText ''From: ''))) (edit ex_draft, cworld_init) EditorThreadRuns))
        \<noteq> message_string (edit ex_draft)"
  by (simp add: edit_def edit_done_def editor_run_def ex_draft_def compose_init_def ex_env_def)

section \<open>ComposeView: one send thread for a session\<close>

lemma after_accept_fields:
  "sendmail_thread (fst (fst (after_accept e cw))) = sendmail_thread (fst cw)"
  "send_threads_started (snd (fst (after_accept e cw))) = send_threads_started (snd cw)"
  "mta_stdin (snd (fst (after_accept e cw))) = mta_stdin (snd cw)"
  by (simp_all add: after_accept_def run_cmd_def invalidate_panels_def Let_def split: option.splits)

lemma sendmail_run_fields:
  assumes "sendmail_run ev cw = Some r"
  shows "sendmail_thread (fst (fst r)) = sendmail_thread (fst cw)"
    and "send_threads_started (snd (fst r)) = send_threads_started (snd cw)"
    and "mta_stdin (snd (fst r)) = mta_stdin (snd cw)
         \<or> (\<exists>e. mta_stdin (snd (fst r)) = mta_stdin (snd cw) @ [e])"
  using assms
  by (auto simp: sendmail_run_def after_accept_fields Let_def
      split: sum.splits agent_behaviour.splits if_splits)

lemma send_started: "sendmail_thread (fst cw) \<noteq> NoThread \<Longrightarrow> send cw = cw"
  by (simp add: send_def Let_def)

lemma step_handle_kept:
  assumes "sendmail_thread (fst cw) \<noteq> NoThread"
  shows "sendmail_thread (fst (step ev cw x)) \<noteq> NoThread
       \<and> send_threads_started (snd (step ev cw x)) = send_threads_started (snd cw)"
proof (cases x)
  case CallSend
  with assms show ?thesis by (simp add: send_started)
next
  case CallEdit
  with assms show ?thesis by (simp add: edit_def)
next
  case SendmailThreadRuns
  with assms show ?thesis
    by (auto simp: sendmail_run_fields split: option.splits)
next
  case EditorThreadRuns
  with assms show ?thesis by (simp add: edit_done_def editor_run_fields)
qed

lemma run_events_handle_kept:
  assumes "sendmail_thread (fst cw) \<noteq> NoThread"
  shows "sendmail_thread (fst (run_events ev cw evs)) \<noteq> NoThread
       \<and> send_threads_started (snd (run_events ev cw evs)) = send_threads_started (snd cw)"
  using assms
proof (induction evs arbitrary: cw)
  case Nil
  then show ?case by (simp add: run_events_def)
next
  case (Cons x evs)
  from step_handle_kept [OF Cons.prems, of ev x]
  have s: "sendmail_thread (fst (step ev cw x)) \<noteq> NoThread"
    "send_threads_started (snd (step ev cw x)) = send_threads_started (snd cw)"
    by simp_all
  from Cons.IH [OF s(1)] s(2) show ?case
    by (simp add: run_events_def)
qed

lemma step_from_unset:
  assumes "sendmail_thread (fst cw) = NoThread"
  shows "(sendmail_thread (fst (step ev cw x)) = NoThread
            \<and> send_threads_started (snd (step ev cw x)) = send_threads_started (snd cw))
       \<or> (sendmail_thread (fst (step ev cw x)) \<noteq> NoThread
            \<and> send_threads_started (snd (step ev cw x)) = Suc (send_threads_started (snd cw)))"
proof (cases x)
  case CallSend
  with assms show ?thesis by (simp add: send_def Let_def)
next
  case CallEdit
  with assms show ?thesis by (simp add: edit_def)
next
  case SendmailThreadRuns
  with assms show ?thesis by simp
next
  case EditorThreadRuns
  with assms show ?thesis by (simp add: edit_done_def editor_run_fields)
qed

lemma run_events_from_unset:
  assumes "sendmail_thread (fst cw) = NoThread"
  shows "send_threads_started (snd (run_events ev cw evs)) \<le> Suc (send_threads_started (snd cw))"
  using assms
proof (induction evs arbitrary: cw)
  case Nil
  then show ?case by (simp add: run_events_def)
next
  case (Cons x evs)
  have unf: "run_events ev cw (x # evs) = run_events ev (step ev cw x) evs"
    by (simp add: run_events_def)
  from step_from_unset [OF Cons.prems, of ev x] show ?case
  proof
    assume a: "sendmail_thread (fst (step ev cw x)) = NoThread
      \<and> send_threads_started (snd (step ev cw x)) = send_threads_started (snd cw)"
    with Cons.IH [of "step ev cw x"] show ?thesis
      by (simp add: unf)
  next
    assume a: "sendmail_thread (fst (step ev cw x)) \<noteq> NoThread
      \<and> send_threads_started (snd (step ev cw x)) = Suc (send_threads_started (snd cw))"
    with run_events_handle_kept [of "step ev cw x" ev evs] show ?thesis
      by (simp add: unf)
  qed
qed

lemma step_mta_once:
  assumes "(sendmail_thread (fst cw) \<noteq> Finished \<longrightarrow> mta_stdin (snd cw) = [])
           \<and> length (mta_stdin (snd cw)) \<le> 1"
  shows "(sendmail_thread (fst (step ev cw x)) \<noteq> Finished \<longrightarrow> mta_stdin (snd (step ev cw x)) = [])
         \<and> length (mta_stdin (snd (step ev cw x))) \<le> 1"
proof (cases x)
  case CallSend
  with assms show ?thesis by (auto simp: send_def Let_def)
next
  case CallEdit
  with assms show ?thesis by (simp add: edit_def)
next
  case SendmailThreadRuns
  show ?thesis
  proof (cases "sendmail_thread (fst cw) = Started")
    case True
    with assms have e: "mta_stdin (snd cw) = []" by simp
    show ?thesis
    proof (cases "sendmail_run ev cw")
      case None
      with True SendmailThreadRuns assms show ?thesis by simp
    next
      case (Some r)
      from sendmail_run_fields(3) [OF Some] e
      have "length (mta_stdin (snd (fst r))) \<le> 1"
        by auto
      with True SendmailThreadRuns Some show ?thesis
        by simp
    qed
  next
    case False
    with assms SendmailThreadRuns show ?thesis by simp
  qed
next
  case EditorThreadRuns
  with assms show ?thesis by (simp add: edit_done_def editor_run_fields)
qed

lemma run_events_mta_once:
  assumes "(sendmail_thread (fst cw) \<noteq> Finished \<longrightarrow> mta_stdin (snd cw) = [])
           \<and> length (mta_stdin (snd cw)) \<le> 1"
  shows "length (mta_stdin (snd (run_events ev cw evs))) \<le> 1"
  using assms
proof (induction evs arbitrary: cw)
  case Nil
  then show ?case by (simp add: run_events_def)
next
  case (Cons x evs)
  from Cons.IH [OF step_mta_once [OF Cons.prems, of ev x]] show ?case
    by (simp add: run_events_def)
qed

text \<open>
  C10. Whatever the user and the background threads do in a session, in whatever
  order: \<open>send\<close> starts a send thread only while the send-thread attribute is unset;
  once the attribute is set it stays set, also after the thread has finished, so
  every later \<open>send\<close> changes nothing and no further send thread is started. From the
  start of a session at most one send thread is started and at most one message is
  handed to a transfer agent.
\<close>

theorem at_most_one_send:
  "(sendmail_thread (fst cw) \<noteq> NoThread \<longrightarrow>
      send cw = cw
      \<and> sendmail_thread (fst (run_events ev cw evs)) \<noteq> NoThread
      \<and> send_threads_started (snd (run_events ev cw evs)) = send_threads_started (snd cw))
   \<and> (sendmail_thread (fst cw) = NoThread \<longrightarrow>
        sendmail_thread (fst (send cw)) = Started
        \<and> send_threads_started (snd (send cw)) = Suc (send_threads_started (snd cw))
        \<and> send_threads_started (snd (run_events ev cw evs)) \<le> Suc (send_threads_started (snd cw)))
   \<and> send_threads_started (snd (run_events ev (compose_init text rt, cworld_init) evs)) \<le> 1
   \<and> length (mta_stdin (snd (run_events ev (compose_init text rt, cworld_init) evs))) \<le> 1"
proof (intro conjI impI)
  assume a: "sendmail_thread (fst cw) \<noteq> NoThread"
  from a show "send cw = cw"
    by (rule send_started)
  from run_events_handle_kept [OF a]
  show "sendmail_thread (fst (run_events ev cw evs)) \<noteq> NoThread"
    and "send_threads_started (snd (run_events ev cw evs)) = send_threads_started (snd cw)"
    by simp_all
next
  assume a: "sendmail_thread (fst cw) = NoThread"
  from a show "sendmail_thread (fst (send cw)) = Started"
    and "send_threads_started (snd (send cw)) = Suc (send_threads_started (snd cw))"
    by (simp_all add: send_def Let_def)
  from a show "send_threads_started (snd (run_events ev cw evs)) \<le> Suc (send_threads_started (snd cw))"
    by (rule run_events_from_unset)
next
  have "sendmail_thread (fst (compose_init text rt, cworld_init)) = NoThread"
    by (simp add: compose_init_def)
  from run_events_from_unset [OF this, of ev evs]
  show "send_threads_started (snd (run_events ev (compose_init text rt, cworld_init) evs)) \<le> 1"
    by (simp add: cworld_init_def)
next
  have "(sendmail_thread (fst (compose_init text rt, cworld_init)) \<noteq> Finished
           \<longrightarrow> mta_stdin (snd (compose_init text rt, cworld_init)) = [])
        \<and> length (mta_stdin (snd (compose_init text rt, cworld_init))) \<le> 1"
    by (simp add: cworld_init_def)
  then show "length (mta_stdin (snd (run_events ev (compose_init text rt, cworld_init) evs))) \<le> 1"
    by (rule run_events_mta_once)
qed

theorem at_most_one_send_witness:
  "sendmail_thread (fst (send (ex_draft, cworld_init))) \<noteq> NoThread
   \<and> send (send (ex_draft, cworld_init)) = send (ex_draft, cworld_init)
   \<and> sendmail_thread (fst (run_events (ex_env ex_headers (\<lambda>path. None) (TakesInput (ExitsAfter 2 1)) CannotStart)
        (send (ex_draft, cworld_init)) [SendmailThreadRuns, CallSend])) \<noteq> NoThread
   \<and> send_threads_started (snd (run_events (ex_env ex_headers (\<lambda>path. None) (TakesInput (ExitsAfter 2 1)) CannotStart)
        (send (ex_draft, cworld_init)) [SendmailThreadRuns, CallSend])) = 1
   \<and> sendmail_thread (fst (ex_draft, cworld_init)) = NoThread
   \<and> send_threads_started (snd (run_events (ex_env ex_headers (\<lambda>path. None) (TakesInput (ExitsAfter 2 1)) CannotStart)
        (ex_draft, cworld_init) [CallSend, SendmailThreadRuns, CallSend, SendmailThreadRuns])) \<le> 1"
proof -
  let ?ev = "ex_env ex_headers (\<lambda>path. None) (TakesInput (ExitsAfter 2 1)) CannotStart"
  have h1: "sendmail_thread (fst (send (ex_draft, cworld_init))) \<noteq> NoThread"
    and n1: "send_threads_started (snd (send (ex_draft, cworld_init))) = 1"
    and h2: "sendmail_thread (fst (ex_draft, cworld_init)) = NoThread"
    and n2: "send_threads_started (snd (ex_draft, cworld_init)) = 0"
    by (simp_all add: send_def ex_draft_def compose_init_def cworld_init_def Let_def)
  from at_most_one_send [of "send (ex_draft, cworld_init)" ?ev "[SendmailThreadRuns, CallSend]"] h1 n1
  have a: "send (send (ex_draft, cworld_init)) = send (ex_draft, cworld_init)
      \<and> sendmail_thread (fst (run_events ?ev (send (ex_draft, cworld_init)) [SendmailThreadRuns, CallSend])) \<noteq> NoThread
      \<and> send_threads_started (snd (run_events ?ev (send (ex_draft, cworld_init)) [SendmailThreadRuns, CallSend])) = 1"
    by simp
  from at_most_one_send [of "(ex_draft, cworld_init)" ?ev
      "[CallSend, SendmailThreadRuns, CallSend, SendmailThreadRuns]"] h2 n2
  have b: "send_threads_started (snd (run_events ?ev (ex_draft, cworld_init)
      [CallSend, SendmailThreadRuns, CallSend, SendmailThreadRuns])) \<le> 1"
    by simp
  from h1 a h2 b show ?thesis
    by blast
qed

text \<open>
  A send that the transfer agent rejects, followed by a second request to send: the
  agent has received one message, and the status is still \<^verbatim>\<open>error\<close>.
\<close>

lemma failed_send_not_retried:
  "mta_stdin (snd (run_events (ex_env ex_headers (\<lambda>path. None) (TakesInput (ExitsAfter 2 1)) CannotStart)
      (ex_draft, cworld_init) [CallSend, SendmailThreadRuns, CallSend, SendmailThreadRuns])) = [ex_eml]"
  "status (fst (run_events (ex_env ex_headers (\<lambda>path. None) (TakesInput (ExitsAfter 2 1)) CannotStart)
      (ex_draft, cworld_init) [CallSend, SendmailThreadRuns, CallSend, SendmailThreadRuns])) = S_error"
proof -
  let ?ev = "ex_env ex_headers (\<lambda>path. None) (TakesInput (ExitsAfter 2 1)) CannotStart"
  have m: "sendmail ?ev ex_eml = TakesInput (ExitsAfter 2 1)"
    by (simp add: ex_env_def)
  have r: "sendmail_run ?ev (send (ex_draft, cworld_init)) =
      Some (((fst (send (ex_draft, cworld_init)))\<lparr>status := S_error\<rparr>,
        (snd (send (ex_draft, cworld_init)))\<lparr>mta_stdin := [ex_eml], agents := [Reaped 1]\<rparr>), None)"
    using sendmail_run_rejected [OF ex_attach m, of "fst (send (ex_draft, cworld_init))"
        "snd (send (ex_draft, cworld_init))"]
    by (simp add: ex_sent_world)
  have "run_events ?ev (ex_draft, cworld_init) [CallSend, SendmailThreadRuns, CallSend, SendmailThreadRuns]
      = ((fst (send (ex_draft, cworld_init)))\<lparr>status := S_error, sendmail_thread := Finished\<rparr>,
         (snd (send (ex_draft, cworld_init)))\<lparr>mta_stdin := [ex_eml], agents := [Reaped 1]\<rparr>)"
    by (simp add: run_events_def r ex_sent_world send_started)
  then show
    "mta_stdin (snd (run_events ?ev (ex_draft, cworld_init)
        [CallSend, SendmailThreadRuns, CallSend, SendmailThreadRuns])) = [ex_eml]"
    "status (fst (run_events ?ev (ex_draft, cworld_init)
        [CallSend, SendmailThreadRuns, CallSend, SendmailThreadRuns])) = S_error"
    by simp_all
qed

end
